theory Spec2Isabelle
  imports Main
begin

section \<open>Values of the messaging client and of the host framework\<close>

text \<open>
  The adapter in \<^verbatim>\<open>broker/nats.go\<close> is glue between the host framework's broker
  interface and the messaging client. The types below are the parts of both libraries
  that the adapter reads or writes. Pointers that may be nil are options; opaque handles
  are numbers.
\<close>

type_synonym bytes = string
type_synonym tlsConfig = nat
type_synonym Conn = nat
type_synonym JetStreamContext = nat
type_synonym StreamInfo = nat
type_synonym Subscription = nat
type_synonym TracingOption = nat

text \<open>
  Errors. An error value made outside the adapter (by the client library, the codec or a
  user handler) is an \<open>ext_error\<close>; the adapter's own errors are made by
  \<^verbatim>\<open>errors.New\<close>. The two never compare equal, as in Go.
\<close>

datatype ext_error =
    ErrStreamNotFound
  | ErrDrainTimeout
  | ExtError string
  | Wrapped string ext_error

datatype error = ErrorsNew string | Ext ext_error

text \<open>\<^verbatim>\<open>errors.Is\<close>: the target is looked for along the chain of wrapped errors.\<close>

fun errors_Is :: "ext_error \<Rightarrow> ext_error \<Rightarrow> bool" where
  "errors_Is (Wrapped w e) tgt = (Wrapped w e = tgt \<or> errors_Is e tgt)"
| "errors_Is e tgt = (e = tgt)"

text \<open>A call either returns or panics.\<close>

datatype 'a outcome = Returned 'a | Panicked

text \<open>The connection status of the client library.\<close>

datatype Status =
  DISCONNECTED | CONNECTED | CLOSED | RECONNECTING | CONNECTING | DRAINING_SUBS | DRAINING_PUBS

text \<open>The three methods of the adapter that are registered as lifecycle callbacks.\<close>

datatype callback = onClose | onAsyncError | onDisconnectedError

text \<open>\<^verbatim>\<open>natsGo.Options\<close>, the fields the adapter touches.\<close>

record natsOptions =
  Servers :: "string list"
  Secure_n :: bool
  TLSConfig_n :: "tlsConfig option"
  ClosedCB :: "callback option"
  AsyncErrorCB :: "callback option"
  DisconnectedErrCB :: "callback option"

text \<open>\<^verbatim>\<open>natsGo.StreamConfig\<close>.\<close>

record StreamConfig =
  Name :: string
  Subjects :: "string list"

text \<open>The native subscribe options the adapter can produce.\<close>

datatype SubOpt = DeliverAll | DeliverNew | DeliverLast

text \<open>
  A \<^verbatim>\<open>context.Context\<close> as far as the adapter uses it: a finite map from the private
  key types of \<^verbatim>\<open>options.go\<close> to the values stored under them.
\<close>

datatype ctx_key =
    optionsKey | drainConnectionKey | jetstreamConfKey
  | headersKey
  | deliverAllKey | deliverNewKey | deliverLastKey

datatype ctx_val =
    VUnit
  | VOptions natsOptions
  | VStreamConfig StreamConfig
  | VHeaders "(string \<times> string list) list"

type_synonym ctx = "ctx_key \<Rightarrow> ctx_val option"

definition context_Background :: ctx where
  "context_Background = (\<lambda>k. None)"

definition context_WithValue :: "ctx \<Rightarrow> ctx_key \<Rightarrow> ctx_val \<Rightarrow> ctx" where
  "context_WithValue c k v = c(k \<mapsto> v)"

text \<open>
  Values of the interface type \<^verbatim>\<open>broker.Any\<close>: nil, a byte slice, a protobuf message,
  a channel (which no codec can encode), or any other value.
\<close>

datatype any = AnyNil | AnyBytes bytes | AnyProto string | AnyChan | AnyValue string

text \<open>\<^verbatim>\<open>x.(proto.Message)\<close>: the type assertion panics unless the value is a protobuf message.\<close>

fun assert_proto_Message :: "any \<Rightarrow> any option" where
  "assert_proto_Message (AnyProto p) = Some (AnyProto p)"
| "assert_proto_Message _ = None"

record Msg =
  Subject :: string
  Header :: "(string \<times> string list) list"
  Data :: bytes

record Message =
  Headers :: "(string \<times> string) list"
  Body :: any

record publication =
  pub_t :: string
  pub_m :: Message
  pub_err :: "ext_error option"

type_synonym Handler = "ctx \<Rightarrow> publication \<Rightarrow> ext_error option"

text \<open>
  A \<^verbatim>\<open>broker.Binder\<close> is a factory of empty values: nil, or the value it returns.
\<close>

type_synonym Binder = "any option"

text \<open>\<^verbatim>\<open>broker.Options\<close> of the host framework. A nil codec is \<open>None\<close>, otherwise its name.\<close>

record Options =
  Addrs :: "string list"
  Codec :: "string option"
  ErrorHandler :: "Handler option"
  Secure :: bool
  TLSConfig :: "tlsConfig option"
  Context :: ctx
  Tracings :: "TracingOption list"

record SubscribeOptions =
  SubContext :: ctx
  AutoAck :: bool
  Queue :: string

record PublishOptions =
  PubContext :: ctx

type_synonym Option = "Options \<Rightarrow> Options"
type_synonym SubscribeOption = "SubscribeOptions \<Rightarrow> SubscribeOptions"
type_synonym PublishOption = "PublishOptions \<Rightarrow> PublishOptions"

text \<open>The three context-writing option constructors of the host framework.\<close>

definition OptionContextWithValue :: "ctx_key \<Rightarrow> ctx_val \<Rightarrow> Option" where
  "OptionContextWithValue k v = (\<lambda>opt. opt\<lparr>Context := context_WithValue (Context opt) k v\<rparr>)"

definition SubscribeContextWithValue :: "ctx_key \<Rightarrow> ctx_val \<Rightarrow> SubscribeOption" where
  "SubscribeContextWithValue k v = (\<lambda>opt. opt\<lparr>SubContext := context_WithValue (SubContext opt) k v\<rparr>)"

definition PublishContextWithValue :: "ctx_key \<Rightarrow> ctx_val \<Rightarrow> PublishOption" where
  "PublishContextWithValue k v = (\<lambda>opt. opt\<lparr>PubContext := context_WithValue (PubContext opt) k v\<rparr>)"

definition WithAddress :: "string list \<Rightarrow> Option" where
  "WithAddress addrs = (\<lambda>opt. opt\<lparr>Addrs := addrs\<rparr>)"

definition WithQueueName :: "string \<Rightarrow> SubscribeOption" where
  "WithQueueName name = (\<lambda>opt. opt\<lparr>Queue := name\<rparr>)"

definition DisableAutoAck :: SubscribeOption where
  "DisableAutoAck = (\<lambda>opt. opt\<lparr>AutoAck := False\<rparr>)"

section \<open>Option carriers (\<^verbatim>\<open>broker/options.go\<close>)\<close>

definition Options_opt :: "natsOptions \<Rightarrow> Option" where
  "Options_opt opts = OptionContextWithValue optionsKey (VOptions opts)"

definition DrainConnection :: Option where
  "DrainConnection = OptionContextWithValue drainConnectionKey VUnit"

definition WithJetStream :: "StreamConfig \<Rightarrow> Option" where
  "WithJetStream streamCnf = OptionContextWithValue jetstreamConfKey (VStreamConfig streamCnf)"

definition WithHeaders :: "(string \<times> string list) list \<Rightarrow> PublishOption" where
  "WithHeaders h = PublishContextWithValue headersKey (VHeaders h)"

definition WithDeliverAll :: SubscribeOption where
  "WithDeliverAll = SubscribeContextWithValue deliverAllKey VUnit"

definition WithDeliverNew :: SubscribeOption where
  "WithDeliverNew = SubscribeContextWithValue deliverNewKey VUnit"

definition WithDeliverLast :: SubscribeOption where
  "WithDeliverLast = SubscribeContextWithValue deliverLastKey VUnit"

section \<open>The adapter state\<close>

datatype SpanKind = SpanKindProducer | SpanKindConsumer

datatype Tracer = NewTracer SpanKind string "TracingOption list"

datatype Span = SpanOf Tracer string

record subscriber =
  sub_s :: "Subscription option"
  sub_options :: SubscribeOptions

text \<open>
  \<^verbatim>\<open>natsBroker\<close>. The embedded \<^verbatim>\<open>sync.Once\<close> is the flag \<open>once_done\<close>; the channel
  \<open>closeCh\<close> is nil or the number of the channel made last; the subscriber registry is
  the list of its entries.
\<close>

record natsBroker =
  once_done :: bool
  connected :: bool
  options :: Options
  conn :: "Conn option"
  natsOpts :: natsOptions
  jsCtx :: "JetStreamContext option"
  streamInfo :: "StreamInfo option"
  subscribers :: "(string \<times> subscriber) list"
  drain :: bool
  closeCh :: "nat option"
  streamCfg :: StreamConfig
  producerTracer :: "Tracer option"
  consumerTracer :: "Tracer option"

text \<open>The zero values of the two library structs.\<close>

definition zero_natsOptions :: natsOptions where
  "zero_natsOptions = \<lparr>Servers = [], Secure_n = False, TLSConfig_n = None,
     ClosedCB = None, AsyncErrorCB = None, DisconnectedErrCB = None\<rparr>"

definition zero_StreamConfig :: StreamConfig where
  "zero_StreamConfig = \<lparr>Name = [], Subjects = []\<rparr>"

text \<open>
  \<^verbatim>\<open>NewBroker\<close>: the argument is the result of the framework's \<^verbatim>\<open>NewOptionsAndApply\<close>.
\<close>

definition NewBroker :: "Options \<Rightarrow> natsBroker" where
  "NewBroker options0 = \<lparr>once_done = False, connected = False, options = options0,
     conn = None, natsOpts = zero_natsOptions, jsCtx = None, streamInfo = None,
     subscribers = [], drain = False, closeCh = None, streamCfg = zero_StreamConfig,
     producerTracer = None, consumerTracer = None\<rparr>"

section \<open>Option application\<close>

text \<open>The constant \<^verbatim>\<open>natsGo.DefaultURL\<close> of the client library.\<close>

definition DefaultURL :: string where
  "DefaultURL = ''nats://127.0.0.1:4222''"

definition HasPrefix :: "string \<Rightarrow> string \<Rightarrow> bool" where
  "HasPrefix str pre = (take (length pre) str = pre)"

text \<open>The loop of \<^verbatim>\<open>setAddrs\<close>, with \<open>cAddrs\<close> as the accumulator.\<close>

fun setAddrs_loop :: "string list \<Rightarrow> string list \<Rightarrow> string list" where
  "setAddrs_loop [] cAddrs = cAddrs"
| "setAddrs_loop (addr # addrs) cAddrs =
     (if length addr = 0 then setAddrs_loop addrs cAddrs
      else let addr' = (if \<not> HasPrefix addr ''nats://'' then ''nats://'' @ addr else addr)
           in setAddrs_loop addrs (cAddrs @ [addr']))"

definition setAddrs :: "string list \<Rightarrow> string list" where
  "setAddrs addrs =
     (let cAddrs = setAddrs_loop addrs []
      in if length cAddrs = 0 then [DefaultURL] else cAddrs)"

text \<open>
  \<^verbatim>\<open>setOption\<close>, statement by statement. First every option is applied to the stored
  options, in order.
\<close>

definition setOption_apply :: "Option list \<Rightarrow> natsBroker \<Rightarrow> natsBroker" where
  "setOption_apply opts b = b\<lparr>options := fold (\<lambda>opt os. opt os) opts (options b)\<rparr>"

text \<open>
  \<^verbatim>\<open>b.Once.Do\<close>: the client options are set to the library's defaults the first time
  only. The first argument is what \<^verbatim>\<open>natsGo.GetDefaultOptions()\<close> returns.
\<close>

definition setOption_once :: "natsOptions \<Rightarrow> natsBroker \<Rightarrow> natsBroker" where
  "setOption_once GetDefaultOptions b =
     (if once_done b then b else b\<lparr>natsOpts := GetDefaultOptions, once_done := True\<rparr>)"

text \<open>Client options stored in the context replace the client options as a whole.\<close>

definition setOption_natsOpts :: "natsBroker \<Rightarrow> natsBroker" where
  "setOption_natsOpts b =
     (case Context (options b) optionsKey of
        Some (VOptions v) \<Rightarrow> b\<lparr>natsOpts := v\<rparr>
      | _ \<Rightarrow> b)"

definition setOption_Addrs :: "natsBroker \<Rightarrow> natsBroker" where
  "setOption_Addrs b =
     (if length (Addrs (options b)) = 0
      then b\<lparr>options := (options b)\<lparr>Addrs := Servers (natsOpts b)\<rparr>\<rparr>
      else b)"

definition setOption_Secure :: "natsBroker \<Rightarrow> natsBroker" where
  "setOption_Secure b =
     (if \<not> Secure (options b)
      then b\<lparr>options := (options b)\<lparr>Secure := Secure_n (natsOpts b)\<rparr>\<rparr>
      else b)"

definition setOption_TLSConfig :: "natsBroker \<Rightarrow> natsBroker" where
  "setOption_TLSConfig b =
     (if TLSConfig (options b) = None
      then b\<lparr>options := (options b)\<lparr>TLSConfig := TLSConfig_n (natsOpts b)\<rparr>\<rparr>
      else b)"

text \<open>The drain option: the flag, a new channel, and the three callbacks.\<close>

definition setOption_drain :: "natsBroker \<Rightarrow> natsBroker" where
  "setOption_drain b =
     (if Context (options b) drainConnectionKey \<noteq> None
      then b\<lparr>drain := True,
             closeCh := Some (case closeCh b of None \<Rightarrow> 0 | Some n \<Rightarrow> Suc n),
             natsOpts := (natsOpts b)\<lparr>ClosedCB := Some onClose,
                AsyncErrorCB := Some onAsyncError,
                DisconnectedErrCB := Some onDisconnectedError\<rparr>\<rparr>
      else b)"

definition setOption_streamCfg :: "natsBroker \<Rightarrow> natsBroker" where
  "setOption_streamCfg b =
     (case Context (options b) jetstreamConfKey of
        Some (VStreamConfig jetStreamCnf) \<Rightarrow> b\<lparr>streamCfg := jetStreamCnf\<rparr>
      | _ \<Rightarrow> b)"

text \<open>
  The statements in the order of the source. The call \<^verbatim>\<open>b.setAddrs(b.options.Addrs)\<close>
  is a statement of its own there: its result is not assigned to anything.
\<close>

definition setOption :: "natsOptions \<Rightarrow> Option list \<Rightarrow> natsBroker \<Rightarrow> natsBroker" where
  "setOption GetDefaultOptions opts b0 =
     (let b1 = setOption_apply opts b0;
          b2 = setOption_once GetDefaultOptions b1;
          b3 = setOption_natsOpts b2;
          b4 = setOption_Addrs b3;
          b5 = setOption_Secure b4;
          b6 = setOption_TLSConfig b5;
          discarded = setAddrs (Addrs (options b6));
          b7 = setOption_drain b6;
          b8 = setOption_streamCfg b7
      in b8)"

text \<open>\<^verbatim>\<open>Init\<close> applies the options and builds the two tracers when tracing is configured.\<close>

definition Init :: "natsOptions \<Rightarrow> Option list \<Rightarrow> natsBroker \<Rightarrow> natsBroker" where
  "Init GetDefaultOptions opts b0 =
     (let b1 = setOption GetDefaultOptions opts b0
      in if length (Tracings (options b1)) > 0
         then b1\<lparr>producerTracer := Some (NewTracer SpanKindProducer ''nats-producer'' (Tracings (options b1))),
                 consumerTracer := Some (NewTracer SpanKindConsumer ''nats-consumer'' (Tracings (options b1)))\<rparr>
         else b1)"

section \<open>The collaborators\<close>

text \<open>
  What the calls on the client library, the codec registry and the tracing library
  return is not decided by the adapter: a \<open>World\<close> fixes one answer for each call.
  \<^verbatim>\<open>broker.Unmarshal\<close> writes through the pointer to the body, so its answer is the error
  (if any) together with the body it leaves behind. \<^verbatim>\<open>Tracer.Start\<close> may write the
  trace context into the headers of the message, so its answer has the message too.
\<close>

record World =
  conn_Status :: "Conn \<Rightarrow> Status"
  opts_Connect :: "natsOptions \<Rightarrow> ext_error + Conn"
  conn_JetStream :: "Conn \<Rightarrow> ext_error + JetStreamContext"
  js_StreamInfo :: "JetStreamContext \<Rightarrow> string \<Rightarrow> ext_error + StreamInfo"
  js_AddStream :: "JetStreamContext \<Rightarrow> StreamConfig \<Rightarrow> ext_error + StreamInfo"
  js_UpdateStream :: "JetStreamContext \<Rightarrow> StreamConfig \<Rightarrow> ext_error + StreamInfo"
  broker_Marshal :: "string option \<Rightarrow> any \<Rightarrow> ext_error + bytes"
  broker_Unmarshal :: "string option \<Rightarrow> bytes \<Rightarrow> any \<Rightarrow> ext_error option \<times> any"
  js_PublishMsg :: "JetStreamContext \<Rightarrow> Msg \<Rightarrow> ext_error option"
  conn_PublishMsg :: "Conn \<Rightarrow> Msg \<Rightarrow> ext_error option"
  js_QueueSubscribe :: "JetStreamContext \<Rightarrow> string \<Rightarrow> string \<Rightarrow> SubOpt list \<Rightarrow> ext_error + Subscription"
  js_Subscribe :: "JetStreamContext \<Rightarrow> string \<Rightarrow> SubOpt list \<Rightarrow> ext_error + Subscription"
  conn_QueueSubscribe :: "Conn \<Rightarrow> string \<Rightarrow> string \<Rightarrow> ext_error + Subscription"
  conn_Subscribe :: "Conn \<Rightarrow> string \<Rightarrow> ext_error + Subscription"
  msg_Ack :: "Msg \<Rightarrow> ext_error option"
  natsHeaderToMap :: "(string \<times> string list) list \<Rightarrow> (string \<times> string) list"
  tracer_Start :: "Tracer \<Rightarrow> ctx \<Rightarrow> Msg \<Rightarrow> ctx \<times> Span \<times> Msg"

text \<open>
  Every call that leaves the adapter is recorded, in order, as an event: the calls on the
  client library (all of the network traffic is among them), the channel operations, the
  span calls, the log lines and the calls of the user's handlers.
\<close>

datatype event =
    Net_Connect natsOptions
  | Net_JetStream Conn
  | Net_StreamInfo JetStreamContext string
  | Net_AddStream JetStreamContext StreamConfig
  | Net_UpdateStream JetStreamContext StreamConfig
  | Net_ConnPublishMsg Conn Msg
  | Net_JsPublishMsg JetStreamContext Msg
  | Net_JsQueueSubscribe JetStreamContext string string "SubOpt list"
  | Net_JsSubscribe JetStreamContext string "SubOpt list"
  | Net_ConnQueueSubscribe Conn string string
  | Net_ConnSubscribe Conn string
  | Net_Drain Conn
  | Net_Close Conn
  | Net_Ack Msg
  | Chan_Send "ext_error option"
  | Chan_Recv
  | Subscribers_Clear
  | SpanStart Tracer string
  | SpanEnd Tracer "Span option" "ext_error option"
  | Log string ext_error
  | CallHandler ctx publication
  | CallErrorHandler ctx publication

section \<open>Connect\<close>

text \<open>The end of \<^verbatim>\<open>Connect\<close>: the update of the stream, then the assignments.\<close>

definition Connect_update ::
  "World \<Rightarrow> natsBroker \<Rightarrow> Conn \<Rightarrow> JetStreamContext \<Rightarrow> event list
    \<Rightarrow> error option \<times> natsBroker \<times> event list" where
  "Connect_update w b c js tr =
     (case js_UpdateStream w js (streamCfg b) of
        Inl e \<Rightarrow> (Some (Ext e), b, tr @ [Net_UpdateStream js (streamCfg b)])
      | Inr si \<Rightarrow> (None, b\<lparr>streamInfo := Some si, conn := Some c, connected := True\<rparr>,
                   tr @ [Net_UpdateStream js (streamCfg b)]))"

text \<open>
  The stream set-up of \<^verbatim>\<open>Connect\<close>. \<^verbatim>\<open>b.jsCtx\<close> is assigned together with the error:
  the library returns a nil context with an error.
\<close>

definition Connect_stream ::
  "World \<Rightarrow> natsBroker \<Rightarrow> Conn \<Rightarrow> event list \<Rightarrow> error option \<times> natsBroker \<times> event list" where
  "Connect_stream w b c tr =
     (case conn_JetStream w c of
        Inl e \<Rightarrow> (Some (Ext e), b\<lparr>jsCtx := None\<rparr>, tr @ [Net_JetStream c])
      | Inr js \<Rightarrow>
          (let b1 = b\<lparr>jsCtx := Some js\<rparr>;
               tr1 = tr @ [Net_JetStream c, Net_StreamInfo js (Name (streamCfg b))]
           in case js_StreamInfo w js (Name (streamCfg b)) of
                Inl e \<Rightarrow>
                  (if errors_Is e ErrStreamNotFound
                   then (case js_AddStream w js (streamCfg b) of
                           Inl e2 \<Rightarrow> (Some (Ext e2), b1, tr1 @ [Net_AddStream js (streamCfg b)])
                         | Inr si \<Rightarrow>
                             Connect_update w b1 c js (tr1 @ [Net_AddStream js (streamCfg b)]))
                   else (Some (Ext e), b1, tr1))
              | Inr si \<Rightarrow> Connect_update w b1 c js tr1))"

definition Connect :: "World \<Rightarrow> natsBroker \<Rightarrow> error option \<times> natsBroker \<times> event list" where
  "Connect w b =
     (if connected b then (None, b, [])
      else
        let status = (case conn b of None \<Rightarrow> CLOSED | Some c \<Rightarrow> conn_Status w c)
        in if status = CONNECTED \<or> status = RECONNECTING \<or> status = CONNECTING
           then (None, b\<lparr>connected := True\<rparr>, [])
           else
             let opts0 = (natsOpts b)\<lparr>Servers := Addrs (options b),
                            Secure_n := Secure (options b),
                            TLSConfig_n := TLSConfig (options b)\<rparr>;
                 opts = (if TLSConfig (options b) \<noteq> None then opts0\<lparr>Secure_n := True\<rparr> else opts0)
             in case opts_Connect w opts of
                  Inl e \<Rightarrow> (Some (Ext e), b, [Net_Connect opts])
                | Inr c \<Rightarrow>
                    if Name (streamCfg b) \<noteq> []
                    then Connect_stream w b c [Net_Connect opts]
                    else (None, b\<lparr>conn := Some c, connected := True\<rparr>, [Net_Connect opts]))"

section \<open>Disconnect and the lifecycle callbacks\<close>

text \<open>
  \<^verbatim>\<open>Disconnect\<close> and the three callbacks are the only code that touches the channel
  \<open>closeCh\<close>. Their bodies are kept as lists of statements, so that they can be run both
  alone and next to each other. \<open>ChanRecv\<close> is the receive statement \<^verbatim>\<open><-ch\<close>.
\<close>

datatype stmt =
    ConnDrain Conn
  | ChanSend "nat option" "ext_error option"
  | ChanRecv "nat option"
  | SubscribersClear
  | ConnClose Conn
  | SetConnected bool

definition Disconnect_body :: "natsBroker \<Rightarrow> stmt list" where
  "Disconnect_body b =
     (if drain b
      then (case conn b of Some c \<Rightarrow> [ConnDrain c] | None \<Rightarrow> []) @ [ChanSend (closeCh b) None]
      else [])
     @ [SubscribersClear]
     @ (case conn b of Some c \<Rightarrow> [ConnClose c] | None \<Rightarrow> [])
     @ [SetConnected False]"

definition onClose_body :: "natsBroker \<Rightarrow> stmt list" where
  "onClose_body b = [ChanSend (closeCh b) None]"

definition onAsyncError_body :: "natsBroker \<Rightarrow> ext_error \<Rightarrow> stmt list" where
  "onAsyncError_body b e = (if errors_Is e ErrDrainTimeout then [ChanSend (closeCh b) (Some e)] else [])"

definition onDisconnectedError_body :: "natsBroker \<Rightarrow> ext_error \<Rightarrow> stmt list" where
  "onDisconnectedError_body b e = [ChanSend (closeCh b) (Some e)]"

text \<open>
  One statement, run by a goroutine on its own. The channel is unbuffered: a send or a
  receive goes through only when another goroutine is at the matching operation, which
  the flag \<open>partner\<close> says; on a nil channel it never does. \<open>None\<close> is a goroutine
  that stays blocked.
\<close>

fun run_stmt :: "bool \<Rightarrow> stmt \<Rightarrow> natsBroker \<Rightarrow> (natsBroker \<times> event list) option" where
  "run_stmt partner (ConnDrain c) b = Some (b, [Net_Drain c])"
| "run_stmt partner (ChanSend ch v) b =
     (if ch \<noteq> None \<and> partner then Some (b, [Chan_Send v]) else None)"
| "run_stmt partner (ChanRecv ch) b =
     (if ch \<noteq> None \<and> partner then Some (b, [Chan_Recv]) else None)"
| "run_stmt partner SubscribersClear b = Some (b\<lparr>subscribers := []\<rparr>, [Subscribers_Clear])"
| "run_stmt partner (ConnClose c) b = Some (b, [Net_Close c])"
| "run_stmt partner (SetConnected v) b = Some (b\<lparr>connected := v\<rparr>, [])"

fun run_stmts :: "bool \<Rightarrow> stmt list \<Rightarrow> natsBroker \<Rightarrow> (natsBroker \<times> event list) option" where
  "run_stmts partner [] b = Some (b, [])"
| "run_stmts partner (st # sts) b =
     (case run_stmt partner st b of
        None \<Rightarrow> None
      | Some (b1, tr1) \<Rightarrow>
          (case run_stmts partner sts b1 of
             None \<Rightarrow> None
           | Some (b2, tr2) \<Rightarrow> Some (b2, tr1 @ tr2)))"

text \<open>\<^verbatim>\<open>Disconnect\<close> returns nil when it returns.\<close>

definition Disconnect ::
  "bool \<Rightarrow> natsBroker \<Rightarrow> (error option \<times> natsBroker \<times> event list) option" where
  "Disconnect partner b =
     (case run_stmts partner (Disconnect_body b) b of
        None \<Rightarrow> None
      | Some (b', tr) \<Rightarrow> Some (None, b', tr))"

text \<open>
  The goroutines next to each other: the one that runs \<^verbatim>\<open>Disconnect\<close> and those in
  which the client library runs a registered callback. A step is a statement that is not
  a channel operation, a send meeting a receive on the same channel, or the library
  starting one more callback.
\<close>

fun is_chan :: "stmt \<Rightarrow> bool" where
  "is_chan (ChanSend ch v) = True"
| "is_chan (ChanRecv ch) = True"
| "is_chan _ = False"

fun is_recv :: "stmt \<Rightarrow> bool" where
  "is_recv (ChanRecv ch) = True"
| "is_recv _ = False"

inductive step :: "natsBroker \<Rightarrow> stmt list \<times> stmt list list \<Rightarrow> stmt list \<times> stmt list list \<Rightarrow> bool"
  for b :: natsBroker where
  main_local: "\<not> is_chan st \<Longrightarrow> step b (st # rest, gs) (rest, gs)"
| callback_local:
    "i < length gs \<Longrightarrow> gs ! i = st # rest \<Longrightarrow> \<not> is_chan st \<Longrightarrow> step b (mn, gs) (mn, gs[i := rest])"
| main_sends:
    "i < length gs \<Longrightarrow> gs ! i = ChanRecv ch # rest' \<Longrightarrow> ch \<noteq> None
      \<Longrightarrow> step b (ChanSend ch v # rest, gs) (rest, gs[i := rest'])"
| main_receives:
    "i < length gs \<Longrightarrow> gs ! i = ChanSend ch v # rest' \<Longrightarrow> ch \<noteq> None
      \<Longrightarrow> step b (ChanRecv ch # rest, gs) (rest, gs[i := rest'])"
| callbacks_meet:
    "i < length gs \<Longrightarrow> j < length gs \<Longrightarrow> i \<noteq> j \<Longrightarrow> gs ! i = ChanSend ch v # ri
      \<Longrightarrow> gs ! j = ChanRecv ch # rj \<Longrightarrow> ch \<noteq> None
      \<Longrightarrow> step b (mn, gs) (mn, gs[i := ri, j := rj])"
| fire_onClose:
    "ClosedCB (natsOpts b) = Some onClose \<Longrightarrow> step b (mn, gs) (mn, gs @ [onClose_body b])"
| fire_onAsyncError:
    "AsyncErrorCB (natsOpts b) = Some onAsyncError \<Longrightarrow> step b (mn, gs) (mn, gs @ [onAsyncError_body b e])"
| fire_onDisconnectedError:
    "DisconnectedErrCB (natsOpts b) = Some onDisconnectedError
      \<Longrightarrow> step b (mn, gs) (mn, gs @ [onDisconnectedError_body b e])"

section \<open>Tracing helpers\<close>

definition startProducerSpan ::
  "World \<Rightarrow> natsBroker \<Rightarrow> ctx \<Rightarrow> Msg \<Rightarrow> Span option \<times> Msg \<times> event list" where
  "startProducerSpan w b c msg =
     (case producerTracer b of
        None \<Rightarrow> (None, msg, [])
      | Some tracer \<Rightarrow>
          (case tracer_Start w tracer c msg of
             (c', span, msg') \<Rightarrow> (Some span, msg', [SpanStart tracer (Subject msg)])))"

definition finishProducerSpan :: "natsBroker \<Rightarrow> Span option \<Rightarrow> ext_error option \<Rightarrow> event list" where
  "finishProducerSpan b span e =
     (case producerTracer b of
        None \<Rightarrow> []
      | Some tracer \<Rightarrow> [SpanEnd tracer span e])"

definition startConsumerSpan ::
  "World \<Rightarrow> natsBroker \<Rightarrow> ctx \<Rightarrow> Msg \<Rightarrow> ctx \<times> Span option \<times> event list" where
  "startConsumerSpan w b c msg =
     (case consumerTracer b of
        None \<Rightarrow> (c, None, [])
      | Some tracer \<Rightarrow>
          (case tracer_Start w tracer c msg of
             (c', span, msg') \<Rightarrow> (c', Some span, [SpanStart tracer (Subject msg)])))"

definition finishConsumerSpan :: "natsBroker \<Rightarrow> Span option \<Rightarrow> event list" where
  "finishConsumerSpan b span =
     (case consumerTracer b of
        None \<Rightarrow> []
      | Some tracer \<Rightarrow> [SpanEnd tracer span None])"

section \<open>Publish\<close>

text \<open>\<^verbatim>\<open>Header.Add\<close> of the client library appends the value to the values of the key.\<close>

fun Header_Add :: "string \<Rightarrow> string \<Rightarrow> (string \<times> string list) list \<Rightarrow> (string \<times> string list) list" where
  "Header_Add k v [] = [(k, [v])]"
| "Header_Add k v ((k', vs) # h) = (if k' = k then (k', vs @ [v]) # h else (k', vs) # Header_Add k v h)"

fun Header_AddAll :: "(string \<times> string list) list \<Rightarrow> (string \<times> string list) list \<Rightarrow> (string \<times> string list) list" where
  "Header_AddAll [] h = h"
| "Header_AddAll ((k, vs) # headers) h = Header_AddAll headers (fold (Header_Add k) vs h)"

definition publish ::
  "World \<Rightarrow> natsBroker \<Rightarrow> ctx \<Rightarrow> string \<Rightarrow> bytes \<Rightarrow> PublishOption list
    \<Rightarrow> error option outcome \<times> event list" where
  "publish w b c topic buf opts =
     (case conn b of
        None \<Rightarrow> (Returned (Some (ErrorsNew ''not connected'')), [])
      | Some cn \<Rightarrow>
          (let options' = fold (\<lambda>opt os. opt os) opts \<lparr>PubContext = c\<rparr>;
               m0 = \<lparr>Subject = topic, Header = [], Data = buf\<rparr>;
               m1 = (case PubContext options' headersKey of
                       Some (VHeaders headers) \<Rightarrow> m0\<lparr>Header := Header_AddAll headers (Header m0)\<rparr>
                     | _ \<Rightarrow> m0)
           in case startProducerSpan w b (PubContext options') m1 of
                (span, m2, tr1) \<Rightarrow>
                  (if streamInfo b \<noteq> None
                   then (case jsCtx b of
                           None \<Rightarrow> (Panicked, tr1)
                         | Some js \<Rightarrow>
                             (Returned (map_option Ext (js_PublishMsg w js m2)),
                              tr1 @ [Net_JsPublishMsg js m2] @ finishProducerSpan b span (js_PublishMsg w js m2)))
                   else (Returned (map_option Ext (conn_PublishMsg w cn m2)),
                         tr1 @ [Net_ConnPublishMsg cn m2] @ finishProducerSpan b span (conn_PublishMsg w cn m2)))))"

definition Publish ::
  "World \<Rightarrow> natsBroker \<Rightarrow> ctx \<Rightarrow> string \<Rightarrow> any \<Rightarrow> PublishOption list
    \<Rightarrow> error option outcome \<times> event list" where
  "Publish w b c topic msg opts =
     (case broker_Marshal w (Codec (options b)) msg of
        Inl e \<Rightarrow> (Returned (Some (Ext e)), [])
      | Inr buf \<Rightarrow> publish w b c topic buf opts)"

section \<open>Subscribe\<close>

text \<open>The options of one \<^verbatim>\<open>Subscribe\<close> call: the defaults, then every supplied option.\<close>

definition Subscribe_options :: "SubscribeOption list \<Rightarrow> SubscribeOptions" where
  "Subscribe_options opts =
     fold (\<lambda>opt os. opt os) opts \<lparr>SubContext = context_Background, AutoAck = True, Queue = []\<rparr>"

text \<open>
  The decode target that the callback puts into the body before decoding. With a \<^verbatim>\<open>Binder\<close>
  it asks the codec for its name, which panics on a nil codec, and for the protobuf codec
  asserts that the bound value is a protobuf message, which panics when it is not.
\<close>

definition decode_target :: "natsBroker \<Rightarrow> Binder \<Rightarrow> Msg \<Rightarrow> any option" where
  "decode_target b bnd msg =
     (case bnd of
        Some v \<Rightarrow>
          (case Codec (options b) of
             None \<Rightarrow> None
           | Some name \<Rightarrow> if name = ''proto'' then assert_proto_Message v else Some v)
      | None \<Rightarrow> Some (AnyBytes (Data msg)))"

text \<open>
  The per-message callback \<^verbatim>\<open>fn\<close> that \<^verbatim>\<open>Subscribe\<close> builds and hands to the client
  library. It closes over the adapter, the options of the call, the \<^verbatim>\<open>Binder\<close> and the
  handler; the adapter is read when the message arrives.
\<close>

definition fn ::
  "World \<Rightarrow> natsBroker \<Rightarrow> SubscribeOptions \<Rightarrow> Binder \<Rightarrow> Handler \<Rightarrow> Msg \<Rightarrow> unit outcome \<times> event list" where
  "fn w b options' bnd handler msg =
     (let m0 = \<lparr>Headers = natsHeaderToMap w (Header msg), Body = AnyNil\<rparr>
      in case startConsumerSpan w b (SubContext options') msg of
           (c, span, tr0) \<Rightarrow>
             (let eh = ErrorHandler (options b)
              in case decode_target b bnd msg of
                   None \<Rightarrow> (Panicked, tr0)
                 | Some target \<Rightarrow>
                     (case broker_Unmarshal w (Codec (options b)) (Data msg) target of
                        (Some e, body) \<Rightarrow>
                          (let pub = \<lparr>pub_t = Subject msg, pub_m = m0\<lparr>Body := body\<rparr>, pub_err = Some e\<rparr>
                           in (Returned (),
                               tr0 @ [Log ''[nats]: unmarshal message failed: %v'' e]
                               @ (case eh of
                                    Some h \<Rightarrow> [CallErrorHandler (Context (options b)) pub]
                                  | None \<Rightarrow> [])))
                      | (None, body) \<Rightarrow>
                          (let pub = \<lparr>pub_t = Subject msg, pub_m = m0\<lparr>Body := body\<rparr>, pub_err = None\<rparr>;
                               tr1 = [CallHandler c pub]
                                 @ (case handler c pub of
                                      Some e \<Rightarrow>
                                        [Log ''[nats]: process message failed: %v'' e]
                                        @ (case eh of
                                             Some h \<Rightarrow> [CallErrorHandler (Context (options b)) (pub\<lparr>pub_err := Some e\<rparr>)]
                                           | None \<Rightarrow> [])
                                    | None \<Rightarrow> []);
                               tr2 = (if AutoAck options'
                                      then [Net_Ack msg]
                                        @ (case msg_Ack w msg of
                                             Some e \<Rightarrow> [Log ''[nats]: unable to commit msg: %v'' e]
                                           | None \<Rightarrow> [])
                                      else [])
                           in (Returned (), tr0 @ tr1 @ tr2 @ finishConsumerSpan b span)))))"

text \<open>The native subscribe options that \<^verbatim>\<open>Subscribe\<close> collects from the context of the call.\<close>

definition Subscribe_subOpts :: "SubscribeOptions \<Rightarrow> SubOpt list" where
  "Subscribe_subOpts options' =
     (if SubContext options' deliverAllKey \<noteq> None then [DeliverAll] else [])
     @ (if SubContext options' deliverNewKey \<noteq> None then [DeliverNew] else [])
     @ (if SubContext options' deliverLastKey \<noteq> None then [DeliverLast] else [])"

text \<open>
  The native call of \<^verbatim>\<open>Subscribe\<close>, with its result. In the stream branch the collected
  options are an argument of \<^verbatim>\<open>QueueSubscribe\<close>; the call of \<^verbatim>\<open>b.jsCtx.Subscribe\<close> in
  the source has the topic and the callback as its only arguments.
\<close>

definition Subscribe_native ::
  "World \<Rightarrow> natsBroker \<Rightarrow> Conn \<Rightarrow> string \<Rightarrow> SubscribeOptions
    \<Rightarrow> (ext_error + Subscription) outcome \<times> event list" where
  "Subscribe_native w b cn topic options' =
     (if streamInfo b \<noteq> None
      then
        (let subOpts = Subscribe_subOpts options'
         in case jsCtx b of
              None \<Rightarrow> (Panicked, [])
            | Some js \<Rightarrow>
                if length (Queue options') > 0
                then (Returned (js_QueueSubscribe w js topic (Queue options') subOpts),
                      [Net_JsQueueSubscribe js topic (Queue options') subOpts])
                else (Returned (js_Subscribe w js topic []), [Net_JsSubscribe js topic []]))
      else
        if length (Queue options') > 0
        then (Returned (conn_QueueSubscribe w cn topic (Queue options')),
              [Net_ConnQueueSubscribe cn topic (Queue options')])
        else (Returned (conn_Subscribe w cn topic), [Net_ConnSubscribe cn topic]))"

text \<open>
  \<^verbatim>\<open>Subscribe\<close>. The callback handed to the native call is
  \<open>fn w b (Subscribe_options opts) bnd handler\<close>; a new subscriber is added to the
  registry under its topic.
\<close>

definition Subscribe ::
  "World \<Rightarrow> natsBroker \<Rightarrow> string \<Rightarrow> Handler \<Rightarrow> Binder \<Rightarrow> SubscribeOption list
    \<Rightarrow> (error + subscriber) outcome \<times> natsBroker \<times> event list" where
  "Subscribe w b topic handler bnd opts =
     (case conn b of
        None \<Rightarrow> (Returned (Inl (ErrorsNew ''not connected'')), b, [])
      | Some cn \<Rightarrow>
          (let options' = Subscribe_options opts
           in case Subscribe_native w b cn topic options' of
                (Panicked, tr) \<Rightarrow> (Panicked, b, tr)
              | (Returned (Inl e), tr) \<Rightarrow> (Returned (Inl (Ext e)), b, tr)
              | (Returned (Inr sub), tr) \<Rightarrow>
                  (let subs = \<lparr>sub_s = Some sub, sub_options = options'\<rparr>
                   in (Returned (Inr subs), b\<lparr>subscribers := subscribers b @ [(topic, subs)]\<rparr>, tr))))"

section \<open>Reachable adapter states\<close>

text \<open>
  One call of the adapter's interface that may change its state, with any arguments and
  any answers of the collaborators. \<^verbatim>\<open>Publish\<close> changes nothing.
\<close>

inductive api_step :: "natsBroker \<Rightarrow> natsBroker \<Rightarrow> bool" where
  step_Init: "api_step b (Init d opts b)"
| step_Connect: "Connect w b = (e, b', tr) \<Longrightarrow> api_step b b'"
| step_Disconnect: "Disconnect partner b = Some (e, b', tr) \<Longrightarrow> api_step b b'"
| step_Subscribe: "Subscribe w b topic handler bnd opts = (r, b', tr) \<Longrightarrow> api_step b b'"

definition reachable :: "natsBroker \<Rightarrow> bool" where
  "reachable b = (\<exists>options0. api_step\<^sup>*\<^sup>* (NewBroker options0) b)"

text \<open>
  The adapters on which \<^verbatim>\<open>Connect\<close> has never been called: a new one, and what the
  other calls make of such an adapter.
\<close>

inductive never_connected :: "natsBroker \<Rightarrow> bool" where
  nc_NewBroker: "never_connected (NewBroker options0)"
| nc_Init: "never_connected b \<Longrightarrow> never_connected (Init d opts b)"
| nc_Disconnect:
    "never_connected b \<Longrightarrow> Disconnect partner b = Some (e, b', tr) \<Longrightarrow> never_connected b'"
| nc_Subscribe:
    "never_connected b \<Longrightarrow> Subscribe w b topic handler bnd opts = (r, b', tr)
      \<Longrightarrow> never_connected b'"

section \<open>Concrete collaborators and adapters\<close>

text \<open>
  A world in which every call of the client library succeeds, the stream does not exist
  yet, and the codec is a JSON codec that rejects a channel when encoding and the
  one-byte input \<open>{\<close> when decoding.
\<close>

definition example_World :: World where
  "example_World = \<lparr>
     conn_Status = (\<lambda>c. CLOSED),
     opts_Connect = (\<lambda>opts. Inr 1),
     conn_JetStream = (\<lambda>c. Inr 2),
     js_StreamInfo = (\<lambda>js name. Inl ErrStreamNotFound),
     js_AddStream = (\<lambda>js cfg. Inr 3),
     js_UpdateStream = (\<lambda>js cfg. Inr 3),
     broker_Marshal = (\<lambda>codec v. case v of
          AnyNil \<Rightarrow> Inr ''null''
        | AnyBytes bs \<Rightarrow> Inr bs
        | AnyProto p \<Rightarrow> Inr p
        | AnyChan \<Rightarrow> Inl (ExtError ''json: unsupported type: chan int'')
        | AnyValue x \<Rightarrow> Inr x),
     broker_Unmarshal = (\<lambda>codec data target.
        if data = ''{'' then (Some (ExtError ''unexpected end of JSON input''), target)
        else (None, AnyValue data)),
     js_PublishMsg = (\<lambda>js msg. None),
     conn_PublishMsg = (\<lambda>c msg. None),
     js_QueueSubscribe = (\<lambda>js topic queue subOpts. Inr 4),
     js_Subscribe = (\<lambda>js topic subOpts. Inr 5),
     conn_QueueSubscribe = (\<lambda>c topic queue. Inr 6),
     conn_Subscribe = (\<lambda>c topic. Inr 7),
     msg_Ack = (\<lambda>msg. Some (ExtError ''nats: connection closed'')),
     natsHeaderToMap = (\<lambda>h. map (\<lambda>(k, vs). (k, concat vs)) h),
     tracer_Start = (\<lambda>tracer c msg. (c, SpanOf tracer (Subject msg), msg))\<rparr>"

definition example_Options :: Options where
  "example_Options = \<lparr>Addrs = [], Codec = Some ''json'', ErrorHandler = None, Secure = False,
     TLSConfig = None, Context = context_Background, Tracings = []\<rparr>"

definition example_handler :: Handler where
  "example_handler = (\<lambda>c pub. None)"

definition failing_handler :: Handler where
  "failing_handler = (\<lambda>c pub. Some (ExtError ''handler failed''))"

definition example_Msg :: Msg where
  "example_Msg = \<lparr>Subject = ''test_topic'', Header = [], Data = ''{\"humidity\":1}''\<rparr>"

definition undecodable_Msg :: Msg where
  "undecodable_Msg = \<lparr>Subject = ''test_topic'', Header = [], Data = ''{''\<rparr>"

text \<open>
  The same world after the connection has been closed: publishing and subscribing on the
  plain connection fail.
\<close>

definition closed_World :: World where
  "closed_World = example_World\<lparr>
     conn_PublishMsg := (\<lambda>c msg. Some (ExtError ''nats: connection closed'')),
     conn_Subscribe := (\<lambda>c topic. Inl (ExtError ''nats: connection closed''))\<rparr>"

text \<open>An adapter that was initialised and never connected.\<close>

definition example_fresh_broker :: natsBroker where
  "example_fresh_broker =
     Init zero_natsOptions [WithAddress [''nats://127.0.0.1:4222'']] (NewBroker example_Options)"

text \<open>The same adapter after a successful \<^verbatim>\<open>Connect\<close>.\<close>

definition example_connected_broker :: natsBroker where
  "example_connected_broker = fst (snd (Connect example_World example_fresh_broker))"

text \<open>An adapter with a stream configured, connected.\<close>

definition example_stream_broker :: natsBroker where
  "example_stream_broker =
     fst (snd (Connect example_World
       (Init zero_natsOptions
          [WithAddress [''nats://127.0.0.1:4222''],
           WithJetStream \<lparr>Name = ''stream-1'', Subjects = [''stream.*'']\<rparr>]
          (NewBroker example_Options))))"

text \<open>An adapter with the drain option set, connected.\<close>

definition example_drain_broker :: natsBroker where
  "example_drain_broker =
     fst (snd (Connect example_World
       (Init zero_natsOptions [WithAddress [''nats://127.0.0.1:4222''], DrainConnection]
          (NewBroker example_Options))))"

text \<open>An adapter with tracing and an error handler configured, connected.\<close>

definition example_traced_broker :: natsBroker where
  "example_traced_broker =
     fst (snd (Connect example_World
       (Init zero_natsOptions [WithAddress [''nats://127.0.0.1:4222'']]
          (NewBroker (example_Options\<lparr>Tracings := [1], ErrorHandler := Some example_handler\<rparr>)))))"

section \<open>Predicates used in the proofs\<close>

text \<open>A goroutine with no receive statement left.\<close>

definition no_recv :: "stmt list \<Rightarrow> bool" where
  "no_recv g = (\<forall>st \<in> set g. \<not> is_recv st)"

text \<open>
  A goroutine that has a channel send ahead of it, with no channel operation before the
  send and the clearing of the registry after it.
\<close>

definition before_send :: "stmt list \<Rightarrow> bool" where
  "before_send g =
     (\<exists>pre ch v post. g = pre @ ChanSend ch v # post \<and> (\<forall>st \<in> set pre. \<not> is_chan st)
        \<and> no_recv post \<and> SubscribersClear \<in> set post)"

text \<open>
  The error \<open>e\<close> is what a publish call on the client returned, and that call is among
  the events \<open>tr\<close>: the call on the plain connection when no stream is set up, the call
  on the stream context otherwise.
\<close>

definition client_publish_error :: "World \<Rightarrow> natsBroker \<Rightarrow> event list \<Rightarrow> ext_error \<Rightarrow> bool" where
  "client_publish_error w b tr e =
     (\<exists>m. (\<exists>cn. conn b = Some cn \<and> streamInfo b = None
                \<and> conn_PublishMsg w cn m = Some e \<and> Net_ConnPublishMsg cn m \<in> set tr)
        \<or> (\<exists>js. jsCtx b = Some js \<and> streamInfo b \<noteq> None
                \<and> js_PublishMsg w js m = Some e \<and> Net_JsPublishMsg js m \<in> set tr))"

text \<open>
  The error \<open>e\<close> is what a subscribe call on the client returned, and that call is among
  the events \<open>tr\<close>.
\<close>

definition client_subscribe_error ::
  "World \<Rightarrow> natsBroker \<Rightarrow> string \<Rightarrow> SubscribeOptions \<Rightarrow> event list \<Rightarrow> ext_error \<Rightarrow> bool" where
  "client_subscribe_error w b topic options' tr e =
     ((\<exists>cn. conn b = Some cn \<and> streamInfo b = None
          \<and> (conn_QueueSubscribe w cn topic (Queue options') = Inl e
               \<and> Net_ConnQueueSubscribe cn topic (Queue options') \<in> set tr
             \<or> conn_Subscribe w cn topic = Inl e \<and> Net_ConnSubscribe cn topic \<in> set tr))
      \<or> (\<exists>js. jsCtx b = Some js \<and> streamInfo b \<noteq> None
          \<and> (js_QueueSubscribe w js topic (Queue options') (Subscribe_subOpts options') = Inl e
               \<and> Net_JsQueueSubscribe js topic (Queue options') (Subscribe_subOpts options') \<in> set tr
             \<or> js_Subscribe w js topic [] = Inl e \<and> Net_JsSubscribe js topic [] \<in> set tr)))"

section \<open>Facts about the concrete adapters\<close>

lemmas example_defs = example_World_def example_Options_def example_handler_def failing_handler_def
  example_Msg_def undecodable_Msg_def example_fresh_broker_def example_connected_broker_def
  example_stream_broker_def example_drain_broker_def example_traced_broker_def

lemmas model_defs = Init_def setOption_def setOption_apply_def setOption_once_def
  setOption_natsOpts_def setOption_Addrs_def setOption_Secure_def setOption_TLSConfig_def
  setOption_drain_def setOption_streamCfg_def NewBroker_def WithAddress_def zero_natsOptions_def
  zero_StreamConfig_def context_Background_def context_WithValue_def OptionContextWithValue_def
  WithJetStream_def DrainConnection_def Connect_def Connect_stream_def Connect_update_def Let_def

lemma example_connected_broker_fields:
  "conn example_connected_broker = Some 1" "connected example_connected_broker"
  "streamInfo example_connected_broker = None" "drain example_connected_broker = False"
  by (simp_all add: example_defs model_defs)

lemma example_stream_broker_fields:
  "conn example_stream_broker = Some 1" "jsCtx example_stream_broker = Some 2"
  "streamInfo example_stream_broker = Some 3"
  by (simp_all add: example_defs model_defs)

lemma example_drain_broker_fields:
  "conn example_drain_broker = Some 1" "drain example_drain_broker"
  "closeCh example_drain_broker = Some 0"
  by (simp_all add: example_defs model_defs)

section \<open>Addresses\<close>

lemma HasPrefix_append: "HasPrefix (pre @ a) pre"
  by (simp add: HasPrefix_def)

lemma setAddrs_loop_prefixed:
  "\<forall>a \<in> set cAddrs. HasPrefix a ''nats://''
    \<Longrightarrow> \<forall>a \<in> set (setAddrs_loop addrs cAddrs). HasPrefix a ''nats://''"
proof (induction addrs arbitrary: cAddrs)
  case Nil
  then show ?case by simp
next
  case (Cons addr addrs)
  show ?case
  proof (cases "length addr = 0")
    case True
    then have "setAddrs_loop (addr # addrs) cAddrs = setAddrs_loop addrs cAddrs"
      by simp
    then show ?thesis using Cons.IH [OF Cons.prems] by (simp only:)
  next
    case False
    define addr' where "addr' = (if \<not> HasPrefix addr ''nats://'' then ''nats://'' @ addr else addr)"
    have "HasPrefix addr' ''nats://''"
      unfolding addr'_def using HasPrefix_append [of "''nats://''" addr] by (simp del: append.simps)
    with Cons.prems have "\<forall>a \<in> set (cAddrs @ [addr']). HasPrefix a ''nats://''"
      by simp
    moreover have "setAddrs_loop (addr # addrs) cAddrs = setAddrs_loop addrs (cAddrs @ [addr'])"
      using False by (simp add: addr'_def Let_def del: append.simps)
    ultimately show ?thesis
      using Cons.IH [of "cAddrs @ [addr']"] by (simp only:)
  qed
qed

text \<open>What \<^verbatim>\<open>setAddrs\<close> returns is never empty and has the scheme on every address.\<close>

lemma setAddrs_prefixed: "\<forall>a \<in> set (setAddrs addrs). HasPrefix a ''nats://''"
proof -
  have "\<forall>a \<in> set (setAddrs_loop addrs []). HasPrefix a ''nats://''"
    by (rule setAddrs_loop_prefixed) simp
  moreover have "HasPrefix DefaultURL ''nats://''"
    by (simp add: DefaultURL_def HasPrefix_def)
  ultimately show ?thesis
    by (simp add: setAddrs_def Let_def)
qed

lemma setAddrs_not_empty: "setAddrs addrs \<noteq> []"
  by (simp add: setAddrs_def Let_def)

text \<open>
  What \<^verbatim>\<open>setOption\<close> stores: the supplied addresses as they are, or the servers of the
  client options when none are supplied.
\<close>

lemma setOption_stages_Addrs:
  "Addrs (options (setOption_once d b)) = Addrs (options b)"
  "Addrs (options (setOption_natsOpts b)) = Addrs (options b)"
  "Addrs (options (setOption_Secure b)) = Addrs (options b)"
  "Addrs (options (setOption_TLSConfig b)) = Addrs (options b)"
  "Addrs (options (setOption_drain b)) = Addrs (options b)"
  "Addrs (options (setOption_streamCfg b)) = Addrs (options b)"
  by (simp_all add: setOption_once_def setOption_natsOpts_def setOption_Secure_def
      setOption_TLSConfig_def setOption_drain_def setOption_streamCfg_def
      split: option.split ctx_val.split)

lemma setOption_Addrs_as_supplied:
  "Addrs (options (setOption d opts b)) =
     (let b3 = setOption_natsOpts (setOption_once d (setOption_apply opts b))
      in if Addrs (options b3) = [] then Servers (natsOpts b3) else Addrs (options b3))"
  by (simp add: setOption_def Let_def setOption_stages_Addrs setOption_Addrs_def)

lemma setOption_Addrs_supplied:
  assumes "Addrs (fold (\<lambda>opt os. opt os) opts (options b)) \<noteq> []"
  shows "Addrs (options (setOption d opts b)) = Addrs (fold (\<lambda>opt os. opt os) opts (options b))"
  using assms
  by (simp add: setOption_Addrs_as_supplied Let_def setOption_stages_Addrs setOption_apply_def)

text \<open>
  Claim C1: after \<^verbatim>\<open>setOption\<close> every stored address carries the scheme
  \<^verbatim>\<open>nats://\<close>, and an empty supplied list is stored as the one default endpoint.
  \<^verbatim>\<open>setAddrs\<close> computes exactly that list, but \<^verbatim>\<open>setOption\<close> drops what it returns.
  With the address \<^verbatim>\<open>127.0.0.1:4222\<close> supplied, the stored list is that address without
  a scheme, where \<^verbatim>\<open>setAddrs\<close> gives it with the scheme; with the empty list supplied
  (and no servers in the client options), the stored list stays empty, where \<^verbatim>\<open>setAddrs\<close>
  gives the default endpoint.
\<close>

theorem setOption_keeps_addresses_as_given:
  "Addrs (options (setOption zero_natsOptions [WithAddress [''127.0.0.1:4222'']] (NewBroker example_Options)))
     = [''127.0.0.1:4222'']
   \<and> setAddrs [''127.0.0.1:4222''] = [''nats://127.0.0.1:4222'']
   \<and> Addrs (options (setOption zero_natsOptions [WithAddress []] (NewBroker example_Options))) = []
   \<and> setAddrs [] = [DefaultURL]"
  by (simp add: model_defs example_Options_def setAddrs_def HasPrefix_def)

section \<open>Delivery position of a stream subscription\<close>

lemma Subscribe_native_single_consumer:
  "streamInfo b \<noteq> None \<Longrightarrow> jsCtx b = Some js \<Longrightarrow> Queue options' = []
    \<Longrightarrow> snd (Subscribe_native w b cn topic options') = [Net_JsSubscribe js topic []]"
  by (simp add: Subscribe_native_def Let_def)

lemma Subscribe_native_queue_group:
  "streamInfo b \<noteq> None \<Longrightarrow> jsCtx b = Some js \<Longrightarrow> Queue options' \<noteq> []
    \<Longrightarrow> snd (Subscribe_native w b cn topic options')
      = [Net_JsQueueSubscribe js topic (Queue options') (Subscribe_subOpts options')]"
  by (simp add: Subscribe_native_def Let_def)

text \<open>
  Claim C2: with a stream configured, the delivery-position option of a \<^verbatim>\<open>Subscribe\<close>
  call reaches the native subscribe call on the queue-group path and on the
  single-consumer path. On the adapter with the stream \<^verbatim>\<open>stream-1\<close>, the option
  \<^verbatim>\<open>WithDeliverAll\<close> is translated to \<open>DeliverAll\<close>; with a queue name the native call
  \<^verbatim>\<open>QueueSubscribe\<close> receives it, and with no queue name the native call \<^verbatim>\<open>Subscribe\<close>
  is made with no option at all.
\<close>

theorem Subscribe_single_consumer_drops_delivery_option:
  "Subscribe_subOpts (Subscribe_options [WithDeliverAll]) = [DeliverAll]
   \<and> snd (snd (Subscribe example_World example_stream_broker ''stream.1'' example_handler None
         [WithDeliverAll]))
     = [Net_JsSubscribe 2 ''stream.1'' []]
   \<and> snd (snd (Subscribe example_World example_stream_broker ''stream.1'' example_handler None
         [WithQueueName ''stream-1-group'', WithDeliverAll]))
     = [Net_JsQueueSubscribe 2 ''stream.1'' ''stream-1-group'' [DeliverAll]]"
  by (simp add: Subscribe_def Subscribe_native_def example_stream_broker_fields Let_def
      Subscribe_subOpts_def Subscribe_options_def WithDeliverAll_def WithQueueName_def
      SubscribeContextWithValue_def context_WithValue_def context_Background_def example_World_def)

section \<open>Disconnect with the drain option\<close>

lemma Disconnect_body_before_send: "drain b \<Longrightarrow> before_send (Disconnect_body b)"
  unfolding before_send_def Disconnect_body_def
  apply (rule exI [of _ "case conn b of Some c \<Rightarrow> [ConnDrain c] | None \<Rightarrow> []"])
  apply (rule exI [of _ "closeCh b"])
  apply (rule exI [of _ None])
  apply (rule exI [of _ "[SubscribersClear] @ (case conn b of Some c \<Rightarrow> [ConnClose c] | None \<Rightarrow> []) @ [SetConnected False]"])
  apply (auto simp: no_recv_def split: option.splits)
  done

lemma callback_bodies_no_recv:
  "no_recv (onClose_body b)" "no_recv (onAsyncError_body b e)" "no_recv (onDisconnectedError_body b e)"
  by (simp_all add: no_recv_def onClose_body_def onAsyncError_body_def onDisconnectedError_body_def)

lemma no_recv_tl: "no_recv (st # rest) \<Longrightarrow> no_recv rest"
  by (simp add: no_recv_def)

lemma no_recv_all_update:
  "\<forall>g \<in> set gs. no_recv g \<Longrightarrow> no_recv r \<Longrightarrow> \<forall>g \<in> set (gs[i := r]). no_recv g"
  using set_update_subset_insert [of gs i r] by auto

lemma before_send_local:
  assumes "before_send (st # rest)" "\<not> is_chan st"
  shows "before_send rest"
proof -
  from assms(1) obtain pre ch v post where
    g: "st # rest = pre @ ChanSend ch v # post" and pre: "\<forall>x \<in> set pre. \<not> is_chan x"
    and post: "no_recv post" "SubscribersClear \<in> set post"
    unfolding before_send_def by blast
  from g assms(2) obtain pre' where "pre = st # pre'"
    by (cases pre) auto
  with g pre post show ?thesis
    unfolding before_send_def by auto
qed

text \<open>
  No step lets the goroutine of \<^verbatim>\<open>Disconnect\<close> past its send: a send needs a goroutine
  at a receive, and neither \<^verbatim>\<open>Disconnect\<close> nor a callback has a receive statement.
\<close>

lemma step_invariant:
  assumes "step b (mn, gs) (mn', gs')"
    and "before_send mn" and "\<forall>g \<in> set gs. no_recv g"
  shows "before_send mn' \<and> (\<forall>g \<in> set gs'. no_recv g)"
  using assms
proof (cases rule: step.cases)
  case (main_local st)
  then show ?thesis using assms(2,3) before_send_local by blast
next
  case (callback_local i st rest)
  then have "no_recv (st # rest)" using assms(3) by (metis nth_mem)
  then have "no_recv rest" by (rule no_recv_tl)
  with callback_local assms(2,3) show ?thesis
    using no_recv_all_update by blast
next
  case (main_sends i ch rest' v)
  then have "no_recv (ChanRecv ch # rest')" using assms(3) by (metis nth_mem)
  then show ?thesis by (simp add: no_recv_def)
next
  case (main_receives i ch v rest')
  from assms(2) obtain pre ch' v' post where
    g: "mn = pre @ ChanSend ch' v' # post" and pre: "\<forall>x \<in> set pre. \<not> is_chan x"
    unfolding before_send_def by blast
  with main_receives(1) show ?thesis by (cases pre) auto
next
  case (callbacks_meet i j ch v ri rj)
  then have "no_recv (ChanRecv ch # rj)" using assms(3) by (metis nth_mem)
  then show ?thesis by (simp add: no_recv_def)
next
  case fire_onClose
  then show ?thesis using assms(2,3) callback_bodies_no_recv by auto
next
  case (fire_onAsyncError e)
  then show ?thesis using assms(2,3) callback_bodies_no_recv by auto
next
  case (fire_onDisconnectedError e)
  then show ?thesis using assms(2,3) callback_bodies_no_recv by auto
qed

lemma steps_invariant:
  assumes "(step b)\<^sup>*\<^sup>* cfg cfg'"
    and "before_send (fst cfg)" and "\<forall>g \<in> set (snd cfg). no_recv g"
  shows "before_send (fst cfg') \<and> (\<forall>g \<in> set (snd cfg'). no_recv g)"
  using assms
proof (induction rule: rtranclp_induct)
  case base
  then show ?case by simp
next
  case (step y z)
  then show ?case using step_invariant [of b "fst y" "snd y" "fst z" "snd z"] by simp
qed

text \<open>
  With the drain option set, however the callbacks fire, \<^verbatim>\<open>Disconnect\<close> never gets to
  clear the registry and never returns.
\<close>

lemma Disconnect_with_drain_never_clears:
  assumes "drain b" and "(step b)\<^sup>*\<^sup>* (Disconnect_body b, []) (mn, gs)"
  shows "SubscribersClear \<in> set mn" and "mn \<noteq> []"
proof -
  have "before_send mn"
    using steps_invariant [OF assms(2)] Disconnect_body_before_send [OF assms(1)] by simp
  then show "SubscribersClear \<in> set mn" and "mn \<noteq> []"
    unfolding before_send_def by auto
qed

text \<open>
  Claim C3: with the drain option set, \<^verbatim>\<open>Disconnect\<close> asks for the drain, then blocks
  until it receives the signal that a lifecycle callback sends, and only then clears the
  registry, closes the connection and returns. On the connected adapter with the drain
  option, the statement of \<^verbatim>\<open>Disconnect\<close> after the drain is a send of nil on
  \<open>closeCh\<close>, not a receive; the callback \<^verbatim>\<open>onClose\<close> is a send on the same
  channel; with no goroutine receiving from the channel \<^verbatim>\<open>Disconnect\<close> does not
  return; and if some goroutine did receive from it, the events of \<^verbatim>\<open>Disconnect\<close> would
  be the drain, the send, the clearing of the registry and the close, with no receive.
\<close>

theorem Disconnect_drain_sends_and_blocks:
  "Disconnect_body example_drain_broker
     = [ConnDrain 1, ChanSend (Some 0) None, SubscribersClear, ConnClose 1, SetConnected False]
   \<and> onClose_body example_drain_broker = [ChanSend (Some 0) None]
   \<and> Disconnect False example_drain_broker = None
   \<and> map_option (\<lambda>r. snd (snd r)) (Disconnect True example_drain_broker)
     = Some [Net_Drain 1, Chan_Send None, Subscribers_Clear, Net_Close 1]"
  by (simp add: Disconnect_body_def Disconnect_def onClose_body_def example_drain_broker_fields)

section \<open>Before the first Connect\<close>

text \<open>Option application leaves the connection handle and the connected flag alone.\<close>

lemma setOption_stages_conn:
  "conn (setOption_apply opts b) = conn b"
  "conn (setOption_once d b) = conn b"
  "conn (setOption_natsOpts b) = conn b"
  "conn (setOption_Addrs b) = conn b"
  "conn (setOption_Secure b) = conn b"
  "conn (setOption_TLSConfig b) = conn b"
  "conn (setOption_drain b) = conn b"
  "conn (setOption_streamCfg b) = conn b"
  by (simp_all add: setOption_apply_def setOption_once_def setOption_natsOpts_def
      setOption_Addrs_def setOption_Secure_def setOption_TLSConfig_def setOption_drain_def
      setOption_streamCfg_def split: option.split ctx_val.split)

lemma setOption_stages_connected:
  "connected (setOption_apply opts b) = connected b"
  "connected (setOption_once d b) = connected b"
  "connected (setOption_natsOpts b) = connected b"
  "connected (setOption_Addrs b) = connected b"
  "connected (setOption_Secure b) = connected b"
  "connected (setOption_TLSConfig b) = connected b"
  "connected (setOption_drain b) = connected b"
  "connected (setOption_streamCfg b) = connected b"
  by (simp_all add: setOption_apply_def setOption_once_def setOption_natsOpts_def
      setOption_Addrs_def setOption_Secure_def setOption_TLSConfig_def setOption_drain_def
      setOption_streamCfg_def split: option.split ctx_val.split)

lemma setOption_conn: "conn (setOption d opts b) = conn b"
  by (simp add: setOption_def Let_def setOption_stages_conn)

lemma setOption_connected: "connected (setOption d opts b) = connected b"
  by (simp add: setOption_def Let_def setOption_stages_connected)

lemma Init_conn: "conn (Init d opts b) = conn b"
  by (simp add: Init_def Let_def setOption_conn)

lemma Init_connected: "connected (Init d opts b) = connected b"
  by (simp add: Init_def Let_def setOption_connected)

lemma conn_before_Connect: "conn (Init d opts (NewBroker options0)) = None"
  by (simp add: Init_conn NewBroker_def)

lemma setOption_stages_Codec:
  "Codec (options (setOption_once d b)) = Codec (options b)"
  "Codec (options (setOption_natsOpts b)) = Codec (options b)"
  "Codec (options (setOption_Addrs b)) = Codec (options b)"
  "Codec (options (setOption_Secure b)) = Codec (options b)"
  "Codec (options (setOption_TLSConfig b)) = Codec (options b)"
  "Codec (options (setOption_drain b)) = Codec (options b)"
  "Codec (options (setOption_streamCfg b)) = Codec (options b)"
  by (simp_all add: setOption_once_def setOption_natsOpts_def setOption_Addrs_def
      setOption_Secure_def setOption_TLSConfig_def setOption_drain_def setOption_streamCfg_def
      split: option.split ctx_val.split)

lemma setOption_Codec:
  "Codec (options (setOption d opts b)) = Codec (fold (\<lambda>opt os. opt os) opts (options b))"
  by (simp add: setOption_def Let_def setOption_stages_Codec setOption_apply_def)

text \<open>\<^verbatim>\<open>Disconnect\<close> in one equation: when it returns, and with what.\<close>

lemma Disconnect_unfold:
  "Disconnect partner b =
     (if drain b \<and> (closeCh b = None \<or> \<not> partner) then None
      else Some (None, b\<lparr>subscribers := [], connected := False\<rparr>,
             (if drain b
              then (case conn b of Some c \<Rightarrow> [Net_Drain c] | None \<Rightarrow> []) @ [Chan_Send None]
              else [])
             @ [Subscribers_Clear]
             @ (case conn b of Some c \<Rightarrow> [Net_Close c] | None \<Rightarrow> [])))"
  by (simp add: Disconnect_def Disconnect_body_def split: option.splits)

lemma Disconnect_conn:
  "Disconnect partner b = Some (e, b', tr) \<Longrightarrow> conn b' = conn b \<and> \<not> connected b' \<and> e = None"
  by (auto simp: Disconnect_unfold split: if_splits)

lemma Subscribe_conn:
  "Subscribe w b topic handler bnd opts = (r, b', tr)
    \<Longrightarrow> conn b' = conn b \<and> connected b' = connected b"
  by (auto simp: Subscribe_def Let_def split: option.splits prod.splits outcome.splits sum.splits)

lemma never_connected_conn: "never_connected b \<Longrightarrow> conn b = None"
proof (induction rule: never_connected.induct)
  case (nc_NewBroker options0)
  show ?case by (simp add: NewBroker_def)
next
  case (nc_Init b d opts)
  then show ?case by (simp add: Init_conn)
next
  case (nc_Disconnect b partner e b' tr)
  then show ?case using Disconnect_conn by metis
next
  case (nc_Subscribe b w topic handler bnd opts r b' tr)
  then show ?case using Subscribe_conn by metis
qed

text \<open>
  Claim C4, as stated: \<^verbatim>\<open>Publish\<close> before any \<^verbatim>\<open>Connect\<close> returns the not-connected
  error for every message. \<^verbatim>\<open>Publish\<close> encodes the message first and returns the
  encoding error when that fails: for a message that the codec cannot encode (a channel
  value under the JSON codec), the error returned by the never-connected adapter is the
  codec's, not the not-connected error.
\<close>

theorem Publish_before_Connect_encoding_error:
  "never_connected example_fresh_broker
   \<and> Publish example_World example_fresh_broker context_Background ''test_topic'' AnyChan []
       = (Returned (Some (Ext (ExtError ''json: unsupported type: chan int''))), [])
   \<and> fst (Publish example_World example_fresh_broker context_Background ''test_topic'' AnyChan [])
       \<noteq> Returned (Some (ErrorsNew ''not connected''))"
proof -
  have "never_connected example_fresh_broker"
    unfolding example_fresh_broker_def by (intro never_connected.intros)
  then show ?thesis
    by (simp add: Publish_def example_fresh_broker_def Init_def Let_def setOption_Codec
        NewBroker_def example_Options_def example_World_def)
qed

text \<open>
  Claim C4, amended: for every topic and message, \<^verbatim>\<open>Publish\<close> before any \<^verbatim>\<open>Connect\<close>
  makes no call on the client library (no network traffic) and returns an error: the
  encoding error when the message cannot be encoded, and the not-connected error otherwise
  (which is what the inner \<^verbatim>\<open>publish\<close> returns for every encoded message).
  \<^verbatim>\<open>Subscribe\<close> before any \<^verbatim>\<open>Connect\<close> returns the not-connected error, makes no call
  on the client library and registers nothing.
\<close>

theorem Publish_Subscribe_before_Connect:
  assumes "never_connected b"
  shows "Publish w b c topic msg opts
           = (Returned (Some (case broker_Marshal w (Codec (options b)) msg of
                                Inl e \<Rightarrow> Ext e
                              | Inr buf \<Rightarrow> ErrorsNew ''not connected'')), [])
         \<and> publish w b c topic buf opts = (Returned (Some (ErrorsNew ''not connected'')), [])
         \<and> Subscribe w b topic handler bnd sopts
           = (Returned (Inl (ErrorsNew ''not connected'')), b, [])"
  using never_connected_conn [OF assms]
  by (simp add: Publish_def publish_def Subscribe_def split: sum.split)

theorem Publish_Subscribe_before_Connect_witness:
  "never_connected example_fresh_broker
   \<and> Publish example_World example_fresh_broker context_Background ''test_topic'' (AnyValue ''x'') []
       = (Returned (Some (ErrorsNew ''not connected'')), [])
   \<and> Subscribe example_World example_fresh_broker ''test_topic'' example_handler None []
       = (Returned (Inl (ErrorsNew ''not connected'')), example_fresh_broker, [])"
proof -
  have h: "never_connected example_fresh_broker"
    unfolding example_fresh_broker_def by (intro never_connected.intros)
  show ?thesis
    using h Publish_Subscribe_before_Connect [OF h, where w = example_World
        and c = context_Background and topic = "''test_topic''" and msg = "AnyValue ''x''"
        and opts = "[]" and handler = example_handler and bnd = None and sopts = "[]"]
    by (simp add: example_World_def)
qed

section \<open>Connect on a connected adapter\<close>

text \<open>
  Claim C8: \<^verbatim>\<open>Connect\<close> on an adapter that is already connected, or whose connection
  reports the status connected, reconnecting or connecting, returns no error, makes no
  call on the client library (so opens no second connection), and changes nothing of the
  adapter but the connected flag, which is set.
\<close>

theorem Connect_when_connected_is_noop:
  assumes "connected b \<or> (\<exists>c. conn b = Some c \<and> conn_Status w c \<in> {CONNECTED, RECONNECTING, CONNECTING})"
  shows "Connect w b = (None, b\<lparr>connected := True\<rparr>, [])"
  using assms by (auto simp: Connect_def Let_def)

theorem Connect_when_connected_is_noop_witness:
  "connected example_connected_broker
   \<and> Connect example_World example_connected_broker = (None, example_connected_broker, [])"
proof -
  have h: "connected example_connected_broker"
    by (rule example_connected_broker_fields)
  show ?thesis
    using h Connect_when_connected_is_noop [of example_connected_broker example_World]
    by simp
qed

text \<open>A second \<^verbatim>\<open>Connect\<close> right after a successful one does nothing.\<close>

lemma Connect_twice:
  assumes "Connect w b = (None, b1, tr)"
  shows "Connect w' b1 = (None, b1, [])"
proof -
  have "connected b1"
    using assms
    by (auto simp: Connect_def Connect_stream_def Connect_update_def Let_def
        split: if_splits option.splits sum.splits)
  then show ?thesis by (simp add: Connect_def)
qed

section \<open>The per-message callback\<close>

lemma startConsumerSpan_events:
  "startConsumerSpan w b c0 msg = (c, span, tr0)
    \<Longrightarrow> tr0 = (case consumerTracer b of None \<Rightarrow> [] | Some tracer \<Rightarrow> [SpanStart tracer (Subject msg)])"
  by (auto simp: startConsumerSpan_def split: option.splits prod.splits)

lemma example_traced_broker_fields:
  "consumerTracer example_traced_broker = Some (NewTracer SpanKindConsumer ''nats-consumer'' [1])"
  "Codec (options example_traced_broker) = Some ''json''"
  "ErrorHandler (options example_traced_broker) = Some example_handler"
  "Context (options example_traced_broker) = context_Background"
  by (simp_all add: example_defs model_defs)

lemma Subscribe_options_Nil:
  "Subscribe_options [] = \<lparr>SubContext = context_Background, AutoAck = True, Queue = []\<rparr>"
  by (simp add: Subscribe_options_def)

lemma example_traced_span:
  "startConsumerSpan example_World example_traced_broker (SubContext (Subscribe_options [])) msg
     = (context_Background,
        Some (SpanOf (NewTracer SpanKindConsumer ''nats-consumer'' [1]) (Subject msg)),
        [SpanStart (NewTracer SpanKindConsumer ''nats-consumer'' [1]) (Subject msg)])"
  by (simp add: startConsumerSpan_def example_traced_broker_fields Subscribe_options_Nil
      example_World_def)

lemma example_connected_broker_options:
  "consumerTracer example_connected_broker = None"
  "Codec (options example_connected_broker) = Some ''json''"
  "ErrorHandler (options example_connected_broker) = None"
  by (simp_all add: example_defs model_defs)

text \<open>
  When decoding fails, no event of the callback is the end of a span, whatever tracer,
  span and error one looks for.
\<close>

lemma no_SpanEnd_when_decoding_fails:
  assumes "decode_target b bnd msg = Some target"
    and "fst (broker_Unmarshal w (Codec (options b)) (Data msg) target) = Some e"
  shows "SpanEnd tracer span' er \<notin> set (snd (fn w b options' bnd handler msg))"
proof -
  obtain c span tr0 where sp: "startConsumerSpan w b (SubContext options') msg = (c, span, tr0)"
    by (cases "startConsumerSpan w b (SubContext options') msg") auto
  obtain body where un: "broker_Unmarshal w (Codec (options b)) (Data msg) target = (Some e, body)"
    using assms(2) by (cases "broker_Unmarshal w (Codec (options b)) (Data msg) target") auto
  show ?thesis
    using sp un assms(1) startConsumerSpan_events [OF sp]
    by (auto simp: fn_def Let_def split: option.splits)
qed

text \<open>
  Claim C5: the callback ends the consumer span before it returns, on every path, the
  decode-failure path included. On the adapter with tracing configured, the callback run
  on a message that does not decode starts the span, logs, calls the error handler and
  returns: its events have no end of the span. Run on a message that decodes, its last
  event is the end of the span.
\<close>

theorem callback_leaves_span_open:
  "fn example_World example_traced_broker (Subscribe_options []) None example_handler undecodable_Msg
     = (Returned (),
        [SpanStart (NewTracer SpanKindConsumer ''nats-consumer'' [1]) ''test_topic'',
         Log ''[nats]: unmarshal message failed: %v'' (ExtError ''unexpected end of JSON input''),
         CallErrorHandler context_Background
           \<lparr>pub_t = ''test_topic'', pub_m = \<lparr>Headers = [], Body = AnyBytes ''{''\<rparr>,
            pub_err = Some (ExtError ''unexpected end of JSON input'')\<rparr>])
   \<and> fn example_World example_traced_broker (Subscribe_options []) None example_handler example_Msg
     = (Returned (),
        [SpanStart (NewTracer SpanKindConsumer ''nats-consumer'' [1]) ''test_topic'',
         CallHandler context_Background
           \<lparr>pub_t = ''test_topic'', pub_m = \<lparr>Headers = [], Body = AnyValue (Data example_Msg)\<rparr>,
            pub_err = None\<rparr>,
         Net_Ack example_Msg,
         Log ''[nats]: unable to commit msg: %v'' (ExtError ''nats: connection closed''),
         SpanEnd (NewTracer SpanKindConsumer ''nats-consumer'' [1])
           (Some (SpanOf (NewTracer SpanKindConsumer ''nats-consumer'' [1]) ''test_topic'')) None])"
  by (simp add: fn_def startConsumerSpan_def finishConsumerSpan_def decode_target_def
      example_traced_broker_fields Subscribe_options_Nil Let_def
      example_World_def undecodable_Msg_def example_Msg_def example_handler_def)

text \<open>
  Claim C6: for a message whose body fails to decode, the callback logs, calls the
  configured error handler if there is one, and returns; it neither acknowledges any
  message nor calls the user's handler, whatever the auto-acknowledge setting is.
\<close>

theorem fn_decode_failure:
  assumes "startConsumerSpan w b (SubContext options') msg = (c, span, tr0)"
    and "decode_target b bnd msg = Some target"
    and "broker_Unmarshal w (Codec (options b)) (Data msg) target = (Some e, body)"
  shows "fn w b options' bnd handler msg
           = (Returned (),
              tr0 @ [Log ''[nats]: unmarshal message failed: %v'' e]
              @ (case ErrorHandler (options b) of
                   Some h \<Rightarrow>
                     [CallErrorHandler (Context (options b))
                        \<lparr>pub_t = Subject msg,
                         pub_m = \<lparr>Headers = natsHeaderToMap w (Header msg), Body = body\<rparr>,
                         pub_err = Some e\<rparr>]
                 | None \<Rightarrow> []))
         \<and> Net_Ack msg' \<notin> set (snd (fn w b options' bnd handler msg))
         \<and> CallHandler c' pub' \<notin> set (snd (fn w b options' bnd handler msg))"
  using assms startConsumerSpan_events [OF assms(1)]
  by (auto simp: fn_def Let_def split: option.splits)

theorem fn_decode_failure_witness:
  "AutoAck (Subscribe_options [])
   \<and> decode_target example_traced_broker None undecodable_Msg = Some (AnyBytes ''{'')
   \<and> fn example_World example_traced_broker (Subscribe_options []) None example_handler undecodable_Msg
     = (Returned (),
        [SpanStart (NewTracer SpanKindConsumer ''nats-consumer'' [1]) ''test_topic'',
         Log ''[nats]: unmarshal message failed: %v'' (ExtError ''unexpected end of JSON input''),
         CallErrorHandler context_Background
           \<lparr>pub_t = ''test_topic'', pub_m = \<lparr>Headers = [], Body = AnyBytes ''{''\<rparr>,
            pub_err = Some (ExtError ''unexpected end of JSON input'')\<rparr>])
   \<and> Net_Ack undecodable_Msg
       \<notin> set (snd (fn example_World example_traced_broker (Subscribe_options []) None
                      example_handler undecodable_Msg))"
proof -
  have h2: "decode_target example_traced_broker None undecodable_Msg = Some (AnyBytes ''{'')"
    by (simp add: decode_target_def undecodable_Msg_def)
  have h3: "broker_Unmarshal example_World (Codec (options example_traced_broker))
              (Data undecodable_Msg) (AnyBytes ''{'')
            = (Some (ExtError ''unexpected end of JSON input''), AnyBytes ''{'')"
    by (simp add: example_World_def undecodable_Msg_def)
  show ?thesis
    using h2 fn_decode_failure [OF example_traced_span h2 h3, where handler = example_handler
        and msg' = undecodable_Msg and c' = context_Background]
    by (simp add: example_traced_broker_fields Subscribe_options_Nil example_World_def
        undecodable_Msg_def)
qed

text \<open>
  Claim C7: for a message that decodes and whose handler returns an error, the callback
  logs, calls the configured error handler if there is one, and goes on: with
  auto-acknowledge on it acknowledges the message, and a failed acknowledgement is only
  a log line; the callback then ends the span and returns.
\<close>

theorem fn_handler_error:
  assumes "startConsumerSpan w b (SubContext options') msg = (c, span, tr0)"
    and "decode_target b bnd msg = Some target"
    and "broker_Unmarshal w (Codec (options b)) (Data msg) target = (None, body)"
    and "pub = \<lparr>pub_t = Subject msg,
                pub_m = \<lparr>Headers = natsHeaderToMap w (Header msg), Body = body\<rparr>,
                pub_err = None\<rparr>"
    and "handler c pub = Some e"
  shows "fn w b options' bnd handler msg
           = (Returned (),
              tr0 @ [CallHandler c pub, Log ''[nats]: process message failed: %v'' e]
              @ (case ErrorHandler (options b) of
                   Some h \<Rightarrow> [CallErrorHandler (Context (options b)) (pub\<lparr>pub_err := Some e\<rparr>)]
                 | None \<Rightarrow> [])
              @ (if AutoAck options'
                 then Net_Ack msg
                   # (case msg_Ack w msg of
                        Some e' \<Rightarrow> [Log ''[nats]: unable to commit msg: %v'' e']
                      | None \<Rightarrow> [])
                 else [])
              @ finishConsumerSpan b span)"
  using assms by (simp add: fn_def Let_def split: option.splits)

theorem fn_handler_error_witness:
  "AutoAck (Subscribe_options [])
   \<and> failing_handler context_Background
       \<lparr>pub_t = ''test_topic'', pub_m = \<lparr>Headers = [], Body = AnyValue (Data example_Msg)\<rparr>,
        pub_err = None\<rparr> = Some (ExtError ''handler failed'')
   \<and> fn example_World example_traced_broker (Subscribe_options []) None failing_handler example_Msg
     = (Returned (),
        [SpanStart (NewTracer SpanKindConsumer ''nats-consumer'' [1]) ''test_topic'',
         CallHandler context_Background
           \<lparr>pub_t = ''test_topic'', pub_m = \<lparr>Headers = [], Body = AnyValue (Data example_Msg)\<rparr>,
            pub_err = None\<rparr>,
         Log ''[nats]: process message failed: %v'' (ExtError ''handler failed''),
         CallErrorHandler context_Background
           \<lparr>pub_t = ''test_topic'', pub_m = \<lparr>Headers = [], Body = AnyValue (Data example_Msg)\<rparr>,
            pub_err = Some (ExtError ''handler failed'')\<rparr>,
         Net_Ack example_Msg,
         Log ''[nats]: unable to commit msg: %v'' (ExtError ''nats: connection closed''),
         SpanEnd (NewTracer SpanKindConsumer ''nats-consumer'' [1])
           (Some (SpanOf (NewTracer SpanKindConsumer ''nats-consumer'' [1]) ''test_topic'')) None])"
proof -
  have h2: "decode_target example_traced_broker None example_Msg = Some (AnyBytes (Data example_Msg))"
    by (simp add: decode_target_def)
  have h3: "broker_Unmarshal example_World (Codec (options example_traced_broker))
              (Data example_Msg) (AnyBytes (Data example_Msg))
            = (None, AnyValue (Data example_Msg))"
    by (simp add: example_World_def example_Msg_def)
  have h4: "\<lparr>pub_t = ''test_topic'', pub_m = \<lparr>Headers = [], Body = AnyValue (Data example_Msg)\<rparr>,
              pub_err = None\<rparr>
            = \<lparr>pub_t = Subject example_Msg,
               pub_m = \<lparr>Headers = natsHeaderToMap example_World (Header example_Msg),
                        Body = AnyValue (Data example_Msg)\<rparr>,
               pub_err = None\<rparr>"
    by (simp add: example_World_def example_Msg_def)
  have h5: "failing_handler context_Background
       \<lparr>pub_t = ''test_topic'', pub_m = \<lparr>Headers = [], Body = AnyValue (Data example_Msg)\<rparr>,
        pub_err = None\<rparr> = Some (ExtError ''handler failed'')"
    by (simp add: failing_handler_def)
  show ?thesis
    using h5 fn_handler_error [where handler = failing_handler and w = example_World
        and b = example_traced_broker and msg = example_Msg and c = context_Background
        and options' = "Subscribe_options []" and e = "ExtError ''handler failed''",
        OF example_traced_span h2 h3 h4 h5]
    by (simp add: example_traced_broker_fields Subscribe_options_Nil example_World_def
        finishConsumerSpan_def example_Msg_def)
qed

section \<open>Auto-acknowledge by default\<close>

lemma fold_keeps_AutoAck:
  "\<forall>opt \<in> set opts. \<forall>os. AutoAck (opt os) = AutoAck os
    \<Longrightarrow> AutoAck (fold (\<lambda>opt os. opt os) opts s0) = AutoAck s0"
  by (induction opts arbitrary: s0) simp_all

lemma Subscribe_subscriber_options:
  "Subscribe w b topic handler bnd opts = (Returned (Inr subs), b', tr)
    \<Longrightarrow> sub_options subs = Subscribe_options opts"
  by (auto simp: Subscribe_def Let_def split: option.splits prod.splits outcome.splits sum.splits)

text \<open>
  Claim C10: when no option of a \<^verbatim>\<open>Subscribe\<close> call changes the auto-acknowledge
  setting, the options of the call have auto-acknowledge on, and the callback built from
  them acknowledges every message that decodes, after the call of the handler (whether
  or not the handler returns an error).
\<close>

theorem Subscribe_acks_by_default:
  assumes "\<forall>opt \<in> set opts. \<forall>os. AutoAck (opt os) = AutoAck os"
    and "startConsumerSpan w b (SubContext (Subscribe_options opts)) msg = (c, span, tr0)"
    and "decode_target b bnd msg = Some target"
    and "broker_Unmarshal w (Codec (options b)) (Data msg) target = (None, body)"
    and "pub = \<lparr>pub_t = Subject msg,
                pub_m = \<lparr>Headers = natsHeaderToMap w (Header msg), Body = body\<rparr>,
                pub_err = None\<rparr>"
  shows "AutoAck (Subscribe_options opts)
         \<and> fn w b (Subscribe_options opts) bnd handler msg
           = (Returned (),
              tr0 @ [CallHandler c pub]
              @ (case handler c pub of
                   Some e \<Rightarrow>
                     Log ''[nats]: process message failed: %v'' e
                     # (case ErrorHandler (options b) of
                          Some h \<Rightarrow> [CallErrorHandler (Context (options b)) (pub\<lparr>pub_err := Some e\<rparr>)]
                        | None \<Rightarrow> [])
                 | None \<Rightarrow> [])
              @ [Net_Ack msg]
              @ (case msg_Ack w msg of
                   Some e' \<Rightarrow> [Log ''[nats]: unable to commit msg: %v'' e']
                 | None \<Rightarrow> [])
              @ finishConsumerSpan b span)"
proof -
  have ack: "AutoAck (Subscribe_options opts)"
    unfolding Subscribe_options_def using fold_keeps_AutoAck [OF assms(1)] by simp
  show ?thesis
    using ack assms(2-5) by (simp add: fn_def Let_def split: option.splits)
qed

theorem Subscribe_acks_by_default_witness:
  "(\<forall>os. AutoAck (WithQueueName ''stream-1-group'' os) = AutoAck os)
   \<and> (\<forall>os. AutoAck (WithDeliverAll os) = AutoAck os)
   \<and> AutoAck (Subscribe_options [WithQueueName ''stream-1-group'', WithDeliverAll])
   \<and> snd (fn example_World example_connected_broker
        (Subscribe_options [WithQueueName ''stream-1-group'', WithDeliverAll]) None example_handler
        example_Msg)
     = [CallHandler (SubContext (Subscribe_options [WithQueueName ''stream-1-group'', WithDeliverAll]))
          \<lparr>pub_t = ''test_topic'', pub_m = \<lparr>Headers = [], Body = AnyValue (Data example_Msg)\<rparr>,
           pub_err = None\<rparr>,
        Net_Ack example_Msg,
        Log ''[nats]: unable to commit msg: %v'' (ExtError ''nats: connection closed'')]"
proof -
  let ?opts = "[WithQueueName ''stream-1-group'', WithDeliverAll]"
  have h1: "\<forall>opt \<in> set ?opts. \<forall>os. AutoAck (opt os) = AutoAck os"
    by (simp add: WithQueueName_def WithDeliverAll_def SubscribeContextWithValue_def)
  have h2: "startConsumerSpan example_World example_connected_broker
              (SubContext (Subscribe_options ?opts)) example_Msg
            = (SubContext (Subscribe_options ?opts), None, [])"
    by (simp add: startConsumerSpan_def example_connected_broker_options)
  have h3: "decode_target example_connected_broker None example_Msg = Some (AnyBytes (Data example_Msg))"
    by (simp add: decode_target_def)
  have h4: "broker_Unmarshal example_World (Codec (options example_connected_broker))
              (Data example_Msg) (AnyBytes (Data example_Msg))
            = (None, AnyValue (Data example_Msg))"
    by (simp add: example_World_def example_Msg_def)
  have h5: "\<lparr>pub_t = ''test_topic'', pub_m = \<lparr>Headers = [], Body = AnyValue (Data example_Msg)\<rparr>,
              pub_err = None\<rparr>
            = \<lparr>pub_t = Subject example_Msg,
               pub_m = \<lparr>Headers = natsHeaderToMap example_World (Header example_Msg),
                        Body = AnyValue (Data example_Msg)\<rparr>,
               pub_err = None\<rparr>"
    by (simp add: example_World_def example_Msg_def)
  show ?thesis
    using h1 Subscribe_acks_by_default [where handler = example_handler and w = example_World
        and b = example_connected_broker and msg = example_Msg, OF h1 h2 h3 h4 h5]
    by (simp add: example_connected_broker_options example_World_def finishConsumerSpan_def
        example_handler_def)
qed

section \<open>The connection handle after Disconnect\<close>

lemma Connect_update_conn:
  "Connect_update w b c js tr = (e, b', tr')
    \<Longrightarrow> (e = None \<longrightarrow> conn b' = Some c \<and> connected b')
      \<and> (e \<noteq> None \<longrightarrow> conn b' = conn b \<and> connected b' = connected b)"
  by (auto simp: Connect_update_def split: sum.splits)

lemma Connect_stream_conn:
  "Connect_stream w b c tr = (e, b', tr')
    \<Longrightarrow> (e = None \<longrightarrow> conn b' = Some c \<and> connected b')
      \<and> (e \<noteq> None \<longrightarrow> conn b' = conn b \<and> connected b' = connected b)"
  by (auto simp: Connect_stream_def Let_def split: sum.splits if_splits dest!: Connect_update_conn)

lemma Connect_conn:
  assumes "Connect w b = (e, b', tr)" and "connected b \<longrightarrow> conn b \<noteq> None"
  shows "(connected b' \<longrightarrow> conn b' \<noteq> None) \<and> (conn b \<noteq> None \<longrightarrow> conn b' \<noteq> None)
         \<and> (e = None \<longrightarrow> conn b' \<noteq> None \<and> connected b')"
  using assms
  by (auto simp: Connect_def Let_def split: if_splits option.splits sum.splits
      dest!: Connect_stream_conn)

text \<open>
  An adapter whose connected flag is set has a connection handle, and no call ever sets
  the handle back to nil.
\<close>

lemma api_step_invariant:
  assumes "api_step b b'" and "connected b \<longrightarrow> conn b \<noteq> None"
  shows "(connected b' \<longrightarrow> conn b' \<noteq> None) \<and> (conn b \<noteq> None \<longrightarrow> conn b' \<noteq> None)"
  using assms
proof (cases rule: api_step.cases)
  case (step_Init d opts)
  then show ?thesis using assms(2) by (simp add: Init_conn Init_connected)
next
  case (step_Connect w e tr)
  then show ?thesis using Connect_conn [OF _ assms(2)] by blast
next
  case (step_Disconnect partner e tr)
  then show ?thesis by (auto dest: Disconnect_conn)
next
  case (step_Subscribe w topic handler bnd opts r tr)
  then show ?thesis using Subscribe_conn assms(2) by metis
qed

lemma api_steps_invariant:
  assumes "api_step\<^sup>*\<^sup>* b b'" and "connected b \<longrightarrow> conn b \<noteq> None"
  shows "(connected b' \<longrightarrow> conn b' \<noteq> None) \<and> (conn b \<noteq> None \<longrightarrow> conn b' \<noteq> None)"
  using assms
proof (induction rule: rtranclp_induct)
  case base
  then show ?case by simp
next
  case (step y z)
  then show ?case using api_step_invariant [of y z] by blast
qed

lemma reachable_connected_conn: "reachable b \<Longrightarrow> connected b \<longrightarrow> conn b \<noteq> None"
  unfolding reachable_def using api_steps_invariant by (fastforce simp: NewBroker_def)

text \<open>
  With a connection handle, an error that \<^verbatim>\<open>Publish\<close> or \<^verbatim>\<open>Subscribe\<close> returns is never
  one made by the adapter.
\<close>

lemma publish_connected_error:
  assumes "conn b \<noteq> None"
  shows "fst (publish w b c topic buf opts) \<noteq> Returned (Some (ErrorsNew txt))"
  using assms
  by (auto simp: publish_def Let_def split: option.splits prod.splits ctx_val.splits)

lemma Publish_connected_error:
  assumes "conn b \<noteq> None"
  shows "fst (Publish w b c topic msg opts) \<noteq> Returned (Some (ErrorsNew txt))"
  using publish_connected_error [OF assms] by (simp add: Publish_def split: sum.splits)

lemma Subscribe_connected_error:
  assumes "conn b \<noteq> None"
  shows "fst (Subscribe w b topic handler bnd opts) \<noteq> Returned (Inl (ErrorsNew txt))"
  using assms
  by (auto simp: Subscribe_def Let_def split: option.splits prod.splits outcome.splits sum.splits)

text \<open>
  With a connection handle, an error that \<^verbatim>\<open>Publish\<close> returns is the codec's encoding
  error, returned before any call on the client, or the error of the client's publish
  call; an error that \<^verbatim>\<open>Subscribe\<close> returns is the error of the client's subscribe call.
\<close>

lemma publish_failure_origin:
  assumes "conn b \<noteq> None" and "publish w b c topic buf opts = (Returned (Some er), tr)"
  shows "\<exists>e. er = Ext e \<and> client_publish_error w b tr e"
proof -
  from assms(1) obtain cn where cn: "conn b = Some cn" by auto
  define options' where "options' = fold (\<lambda>opt os. opt os) opts \<lparr>PubContext = c\<rparr>"
  define m1 where "m1 = (case PubContext options' headersKey of
       Some (VHeaders headers) \<Rightarrow>
         \<lparr>Subject = topic, Header = Header_AddAll headers [], Data = buf\<rparr>
     | _ \<Rightarrow> \<lparr>Subject = topic, Header = [], Data = buf\<rparr>)"
  obtain span m2 tr1 where sp: "startProducerSpan w b (PubContext options') m1 = (span, m2, tr1)"
    by (cases "startProducerSpan w b (PubContext options') m1") auto
  have m1_eq: "(case PubContext options' headersKey of
       Some (VHeaders headers) \<Rightarrow>
         \<lparr>Subject = topic, Header = [], Data = buf\<rparr>\<lparr>Header := Header_AddAll headers
            (Header \<lparr>Subject = topic, Header = [], Data = buf\<rparr>)\<rparr>
     | _ \<Rightarrow> \<lparr>Subject = topic, Header = [], Data = buf\<rparr>) = m1"
    unfolding m1_def by (simp split: option.splits ctx_val.splits)
  have pub: "publish w b c topic buf opts =
      (if streamInfo b \<noteq> None
       then (case jsCtx b of
               None \<Rightarrow> (Panicked, tr1)
             | Some js \<Rightarrow>
                 (Returned (map_option Ext (js_PublishMsg w js m2)),
                  tr1 @ [Net_JsPublishMsg js m2] @ finishProducerSpan b span (js_PublishMsg w js m2)))
       else (Returned (map_option Ext (conn_PublishMsg w cn m2)),
             tr1 @ [Net_ConnPublishMsg cn m2] @ finishProducerSpan b span (conn_PublishMsg w cn m2)))"
    unfolding publish_def Let_def
    by (simp only: cn option.case options'_def [symmetric] m1_eq sp prod.case)
  show ?thesis
  proof (cases "streamInfo b \<noteq> None")
    case True
    with pub assms(2) obtain js where js: "jsCtx b = Some js"
      by (cases "jsCtx b") auto
    with pub assms(2) True have "map_option Ext (js_PublishMsg w js m2) = Some er"
      and ev: "Net_JsPublishMsg js m2 \<in> set tr"
      by auto
    then obtain e where "js_PublishMsg w js m2 = Some e" "er = Ext e"
      by (cases "js_PublishMsg w js m2") auto
    with js True ev show ?thesis unfolding client_publish_error_def by auto
  next
    case False
    with pub assms(2) have "map_option Ext (conn_PublishMsg w cn m2) = Some er"
      and ev: "Net_ConnPublishMsg cn m2 \<in> set tr"
      by auto
    then obtain e where "conn_PublishMsg w cn m2 = Some e" "er = Ext e"
      by (cases "conn_PublishMsg w cn m2") auto
    with cn False ev show ?thesis unfolding client_publish_error_def by auto
  qed
qed

lemma Publish_failure_origin:
  assumes "conn b \<noteq> None" and "Publish w b c topic msg opts = (Returned (Some er), tr)"
  shows "\<exists>e. er = Ext e
           \<and> (broker_Marshal w (Codec (options b)) msg = Inl e \<and> tr = []
              \<or> client_publish_error w b tr e)"
proof (cases "broker_Marshal w (Codec (options b)) msg")
  case (Inl e)
  with assms(2) show ?thesis by (auto simp: Publish_def)
next
  case (Inr buf)
  with assms(2) have "publish w b c topic buf opts = (Returned (Some er), tr)"
    by (simp add: Publish_def)
  from publish_failure_origin [OF assms(1) this] show ?thesis by blast
qed

lemma Subscribe_failure_origin:
  assumes "conn b \<noteq> None"
    and "Subscribe w b topic handler bnd opts = (Returned (Inl er), b', tr)"
  shows "\<exists>e. er = Ext e \<and> client_subscribe_error w b topic (Subscribe_options opts) tr e"
proof -
  from assms(1) obtain cn where cn: "conn b = Some cn" by auto
  obtain r tr' where nat: "Subscribe_native w b cn topic (Subscribe_options opts) = (r, tr')"
    by (cases "Subscribe_native w b cn topic (Subscribe_options opts)") auto
  with assms(2) cn obtain e where e: "r = Returned (Inl e)" "er = Ext e" "tr' = tr"
    by (auto simp: Subscribe_def Let_def split: outcome.splits sum.splits)
  from nat e(1,3) cn have "client_subscribe_error w b topic (Subscribe_options opts) tr e"
    unfolding client_subscribe_error_def Subscribe_native_def Let_def
    by (auto split: if_splits option.splits)
  with e(2) show ?thesis by blast
qed

lemma example_disconnected_broker_fields:
  "conn (example_connected_broker\<lparr>subscribers := [], connected := False\<rparr>) = Some 1"
  "streamInfo (example_connected_broker\<lparr>subscribers := [], connected := False\<rparr>) = None"
  "producerTracer (example_connected_broker\<lparr>subscribers := [], connected := False\<rparr>) = None"
  "Codec (options (example_connected_broker\<lparr>subscribers := [], connected := False\<rparr>)) = Some ''json''"
  by (simp_all add: example_defs model_defs)

text \<open>
  Claim C9, as stated: after a successful \<^verbatim>\<open>Connect\<close> followed by \<^verbatim>\<open>Disconnect\<close> the
  connection handle is still there, a later \<^verbatim>\<open>Publish\<close> or \<^verbatim>\<open>Subscribe\<close> does not return
  the adapter's own not-connected error, and any failure then comes from the underlying
  closed connection. The last part fails: on the adapter that was connected and
  disconnected, \<^verbatim>\<open>Publish\<close> of a message that the codec cannot encode fails with the
  codec's error and makes no call on the connection at all.
\<close>

theorem Publish_after_Disconnect_encoding_error:
  "reachable example_fresh_broker
   \<and> fst (Connect example_World example_fresh_broker) = None
   \<and> Disconnect False example_connected_broker
     = Some (None, example_connected_broker\<lparr>subscribers := [], connected := False\<rparr>,
             [Subscribers_Clear, Net_Close 1])
   \<and> Publish example_World (example_connected_broker\<lparr>subscribers := [], connected := False\<rparr>)
        context_Background ''test_topic'' AnyChan []
     = (Returned (Some (Ext (ExtError ''json: unsupported type: chan int''))), [])"
proof -
  have "api_step (NewBroker example_Options) example_fresh_broker"
    unfolding example_fresh_broker_def by (rule api_step.step_Init)
  then have h1: "reachable example_fresh_broker"
    unfolding reachable_def by blast
  have h2: "fst (Connect example_World example_fresh_broker) = None"
    by (simp add: example_defs model_defs)
  have h3: "Disconnect False example_connected_broker
      = Some (None, example_connected_broker\<lparr>subscribers := [], connected := False\<rparr>,
              [Subscribers_Clear, Net_Close 1])"
    by (simp add: Disconnect_unfold example_connected_broker_fields)
  have h4: "Publish example_World (example_connected_broker\<lparr>subscribers := [], connected := False\<rparr>)
        context_Background ''test_topic'' AnyChan []
     = (Returned (Some (Ext (ExtError ''json: unsupported type: chan int''))), [])"
    by (simp add: Publish_def example_World_def)
  show ?thesis using h1 h2 h3 h4 by simp
qed

text \<open>
  Claim C9, amended: after a successful \<^verbatim>\<open>Connect\<close> followed by \<^verbatim>\<open>Disconnect\<close> the
  connection handle is still there, and it stays there through every later call; so
  \<^verbatim>\<open>Publish\<close> and \<^verbatim>\<open>Subscribe\<close> never again return the adapter's own not-connected
  error. An error that \<^verbatim>\<open>Publish\<close> then returns is either the codec's encoding error,
  returned with no call on the client, or the error returned by the client's publish call;
  an error that \<^verbatim>\<open>Subscribe\<close> then returns is the error returned by the client's
  subscribe call.
\<close>

theorem conn_kept_after_Disconnect:
  assumes "reachable b"
    and "Connect w b = (None, b1, tr1)"
    and "Disconnect partner b1 = Some (e, b2, tr2)"
    and "api_step\<^sup>*\<^sup>* b2 b3"
  shows "conn b2 \<noteq> None \<and> conn b3 \<noteq> None
         \<and> fst (Publish w' b3 c topic msg popts) \<noteq> Returned (Some (ErrorsNew ''not connected''))
         \<and> fst (Subscribe w' b3 topic' handler bnd sopts) \<noteq> Returned (Inl (ErrorsNew ''not connected''))
         \<and> (\<forall>er tr. Publish w' b3 c topic msg popts = (Returned (Some er), tr)
               \<longrightarrow> (\<exists>e'. er = Ext e'
                      \<and> (broker_Marshal w' (Codec (options b3)) msg = Inl e' \<and> tr = []
                         \<or> client_publish_error w' b3 tr e')))
         \<and> (\<forall>er b' tr. Subscribe w' b3 topic' handler bnd sopts = (Returned (Inl er), b', tr)
               \<longrightarrow> (\<exists>e'. er = Ext e'
                      \<and> client_subscribe_error w' b3 topic' (Subscribe_options sopts) tr e'))"
proof -
  have "conn b1 \<noteq> None"
    using Connect_conn [OF assms(2) reachable_connected_conn [OF assms(1)]] by simp
  then have c2: "conn b2 \<noteq> None" "\<not> connected b2"
    using Disconnect_conn [OF assms(3)] by simp_all
  then have c3: "conn b3 \<noteq> None"
    using api_steps_invariant [OF assms(4)] by simp
  have p: "\<forall>er tr. Publish w' b3 c topic msg popts = (Returned (Some er), tr)
               \<longrightarrow> (\<exists>e'. er = Ext e'
                      \<and> (broker_Marshal w' (Codec (options b3)) msg = Inl e' \<and> tr = []
                         \<or> client_publish_error w' b3 tr e'))"
    using Publish_failure_origin [OF c3] by blast
  have s: "\<forall>er b' tr. Subscribe w' b3 topic' handler bnd sopts = (Returned (Inl er), b', tr)
               \<longrightarrow> (\<exists>e'. er = Ext e'
                      \<and> client_subscribe_error w' b3 topic' (Subscribe_options sopts) tr e')"
    using Subscribe_failure_origin [OF c3] by blast
  show ?thesis
    using c2 c3 Publish_connected_error [OF c3] Subscribe_connected_error [OF c3] p s by simp
qed

theorem conn_kept_after_Disconnect_witness:
  "reachable example_fresh_broker
   \<and> fst (Connect example_World example_fresh_broker) = None
   \<and> Disconnect False example_connected_broker
     = Some (None, example_connected_broker\<lparr>subscribers := [], connected := False\<rparr>,
             [Subscribers_Clear, Net_Close 1])
   \<and> conn (example_connected_broker\<lparr>subscribers := [], connected := False\<rparr>) \<noteq> None
   \<and> Publish closed_World (example_connected_broker\<lparr>subscribers := [], connected := False\<rparr>)
        context_Background ''test_topic'' (AnyValue ''x'') []
     = (Returned (Some (Ext (ExtError ''nats: connection closed''))),
        [Net_ConnPublishMsg 1 \<lparr>Subject = ''test_topic'', Header = [], Data = ''x''\<rparr>])
   \<and> client_publish_error closed_World
        (example_connected_broker\<lparr>subscribers := [], connected := False\<rparr>)
        [Net_ConnPublishMsg 1 \<lparr>Subject = ''test_topic'', Header = [], Data = ''x''\<rparr>]
        (ExtError ''nats: connection closed'')
   \<and> Subscribe closed_World (example_connected_broker\<lparr>subscribers := [], connected := False\<rparr>)
        ''test_topic'' example_handler None []
     = (Returned (Inl (Ext (ExtError ''nats: connection closed''))),
        example_connected_broker\<lparr>subscribers := [], connected := False\<rparr>,
        [Net_ConnSubscribe 1 ''test_topic''])
   \<and> client_subscribe_error closed_World
        (example_connected_broker\<lparr>subscribers := [], connected := False\<rparr>)
        ''test_topic'' (Subscribe_options []) [Net_ConnSubscribe 1 ''test_topic'']
        (ExtError ''nats: connection closed'')"
proof -
  let ?b2 = "example_connected_broker\<lparr>subscribers := [], connected := False\<rparr>"
  let ?m = "\<lparr>Subject = ''test_topic'', Header = [], Data = ''x''\<rparr>"
  let ?E = "ExtError ''nats: connection closed''"
  have "api_step (NewBroker example_Options) example_fresh_broker"
    unfolding example_fresh_broker_def by (rule api_step.step_Init)
  then have h1: "reachable example_fresh_broker"
    unfolding reachable_def by blast
  have ok: "fst (Connect example_World example_fresh_broker) = None"
    by (simp add: example_defs model_defs)
  then have h2: "Connect example_World example_fresh_broker
      = (None, example_connected_broker, snd (snd (Connect example_World example_fresh_broker)))"
    by (simp add: example_connected_broker_def prod_eq_iff)
  have h3: "Disconnect False example_connected_broker
      = Some (None, ?b2, [Subscribers_Clear, Net_Close 1])"
    by (simp add: Disconnect_unfold example_connected_broker_fields)
  have h4: "api_step\<^sup>*\<^sup>* ?b2 ?b2"
    by simp
  have pub: "Publish closed_World ?b2 context_Background ''test_topic'' (AnyValue ''x'') []
      = (Returned (Some (Ext ?E)), [Net_ConnPublishMsg 1 ?m])"
    by (simp add: Publish_def publish_def startProducerSpan_def finishProducerSpan_def Let_def
        example_disconnected_broker_fields closed_World_def example_World_def
        context_Background_def)
  have sub: "Subscribe closed_World ?b2 ''test_topic'' example_handler None []
      = (Returned (Inl (Ext ?E)), ?b2, [Net_ConnSubscribe 1 ''test_topic''])"
    by (simp add: Subscribe_def Subscribe_native_def Subscribe_options_def Let_def
        example_disconnected_broker_fields closed_World_def example_World_def)
  note th = conn_kept_after_Disconnect [OF h1 h2 h3 h4, where w' = closed_World
        and c = context_Background and topic = "''test_topic''" and msg = "AnyValue ''x''"
        and popts = "[]" and topic' = "''test_topic''" and handler = example_handler
        and bnd = None and sopts = "[]"]
  from th pub have "\<exists>e'. Ext ?E = Ext e'
      \<and> (broker_Marshal closed_World (Codec (options ?b2)) (AnyValue ''x'') = Inl e'
            \<and> [Net_ConnPublishMsg 1 ?m] = []
          \<or> client_publish_error closed_World ?b2 [Net_ConnPublishMsg 1 ?m] e')"
    by blast
  then have cp: "client_publish_error closed_World ?b2 [Net_ConnPublishMsg 1 ?m] ?E"
    by auto
  from th sub have "\<exists>e'. Ext ?E = Ext e'
      \<and> client_subscribe_error closed_World ?b2 ''test_topic'' (Subscribe_options [])
           [Net_ConnSubscribe 1 ''test_topic''] e'"
    by blast
  then have cs: "client_subscribe_error closed_World ?b2 ''test_topic'' (Subscribe_options [])
           [Net_ConnSubscribe 1 ''test_topic''] ?E"
    by auto
  from th have c2: "conn ?b2 \<noteq> None" by simp
  show ?thesis
    using h1 ok h3 c2 pub cp sub cs by simp
qed

end
